theory Spec2Isabelle
  imports Complex_Main "HOL-Library.Sublist" "HOL-Library.AList"
begin

section \<open>Text primitives\<close>

text \<open>
  Python strings are modelled as \<open>string\<close> (lists of 8-bit characters). \<open>lower\<close> is
  \<^verbatim>\<open>str.lower()\<close> on the ASCII letters, \<open>strip\<close> is \<^verbatim>\<open>str.strip()\<close> on the ASCII
  white space that \<^verbatim>\<open>str.isspace()\<close> accepts, and \<open>contains p s\<close> is the scan behind
  \<^verbatim>\<open>p in s\<close>. Characters outside ASCII are left alone by \<open>lower\<close> and never count as
  white space.
\<close>

definition lower_char :: "char \<Rightarrow> char" where
  "lower_char c =
     (case map_of (zip ''ABCDEFGHIJKLMNOPQRSTUVWXYZ'' ''abcdefghijklmnopqrstuvwxyz'') c of
        Some d \<Rightarrow> d
      | None \<Rightarrow> c)"

definition lower :: "string \<Rightarrow> string" where
  "lower s = map lower_char s"

definition upper_char :: "char \<Rightarrow> char" where
  "upper_char c =
     (case map_of (zip ''abcdefghijklmnopqrstuvwxyz'' ''ABCDEFGHIJKLMNOPQRSTUVWXYZ'') c of
        Some d \<Rightarrow> d
      | None \<Rightarrow> c)"

definition upper :: "string \<Rightarrow> string" where
  "upper s = map upper_char s"

definition is_space :: "char \<Rightarrow> bool" where
  "is_space c \<longleftrightarrow> c \<in> set [CHR 0x09, CHR 0x0A, CHR 0x0B, CHR 0x0C, CHR 0x0D,
                             CHR 0x1C, CHR 0x1D, CHR 0x1E, CHR 0x1F, CHR '' '']"

definition strip :: "string \<Rightarrow> string" where
  "strip s = rev (dropWhile is_space (rev (dropWhile is_space s)))"

fun contains :: "string \<Rightarrow> string \<Rightarrow> bool" where
  "contains p [] = (p = [])"
| "contains p (c # cs) = (prefix p (c # cs) \<or> contains p cs)"

definition is_digit :: "char \<Rightarrow> bool" where
  "is_digit c \<longleftrightarrow> c \<in> set ''0123456789''"

section \<open>Sheet locator\<close>

text \<open>
  \<^verbatim>\<open>pick_sheet(workbook, patterns)\<close> of \<^verbatim>\<open>etl/utils.py\<close>. The outer loop runs over the
  patterns, the inner loop over the sheet names in workbook order; the first hit returns
  the sheet's own (not lowercased) name, and falling out of both loops returns \<open>None\<close>.
  The pattern is lowercased before the comparison, as the name is.
\<close>

fun first_match :: "string \<Rightarrow> string list \<Rightarrow> string option" where
  "first_match pattern_lower [] = None"
| "first_match pattern_lower (n # ns) =
     (if contains pattern_lower (lower n) then Some n else first_match pattern_lower ns)"

fun pick_sheet :: "string list \<Rightarrow> string list \<Rightarrow> string option" where
  "pick_sheet sheetnames [] = None"
| "pick_sheet sheetnames (pattern # patterns) =
     (case first_match (lower pattern) sheetnames of
        Some actual_name \<Rightarrow> Some actual_name
      | None \<Rightarrow> pick_sheet sheetnames patterns)"

definition DASHBOARD_SHEET_PATTERNS :: "string list" where
  "DASHBOARD_SHEET_PATTERNS = [''dashboard'', ''2025'', ''2026'']"

definition LEASE_RATE_SHEET_PATTERNS :: "string list" where
  "LEASE_RATE_SHEET_PATTERNS = [''lease'', ''rate'']"

definition OWN_USE_PATTERNS :: "string list" where
  "OWN_USE_PATTERNS = [''black label'', ''owner use'', ''uso propio'', ''101b'']"

definition VACANCY_PATTERNS :: "string list" where
  "VACANCY_PATTERNS = [''vacante'', ''vacant'', ''disponible'', ''available'']"

section \<open>Cell values and the library environment\<close>

text \<open>
  A spreadsheet cell or DataFrame element as Python sees it: \<open>PNone\<close> is \<^verbatim>\<open>None\<close>
  (an empty openpyxl cell), \<open>PNaN\<close> is pandas' missing value, \<open>PNum\<close> a number (floats
  are idealised as reals), \<open>PStr\<close> text and \<open>PDate y m d\<close> a date. Boolean and error cells
  are not modelled.

  What the libraries compute from such values is a parameter of the model: how Python
  prints a number or a date (\<open>str_num\<close>, \<open>str_date\<close>), which texts \<^verbatim>\<open>float()\<close>
  accepts (\<open>float_of_text\<close>: \<open>None\<close> is a \<^verbatim>\<open>ValueError\<close>, \<open>Some None\<close> is NaN), what
  \<^verbatim>\<open>pd.to_numeric(..., errors='coerce')\<close> makes of a text or a date (\<open>numeric_of\<close>,
  \<open>None\<close> is NaN), which values \<^verbatim>\<open>pd.to_datetime(..., errors='coerce')\<close> parses
  (\<open>to_datetime\<close>, \<open>None\<close> is NaT or a failure), and the clock.
\<close>

datatype pyval = PNone | PNaN | PNum real | PStr string | PDate nat nat nat

record timestamp =
  ts_year :: nat
  ts_month :: nat

record env =
  str_num :: "real \<Rightarrow> string"
  str_date :: "nat \<Rightarrow> nat \<Rightarrow> nat \<Rightarrow> string"
  float_of_text :: "string \<Rightarrow> real option option"
  numeric_of :: "pyval \<Rightarrow> real option"
  to_datetime :: "pyval \<Rightarrow> timestamp option"
  now_month :: timestamp
  now_iso :: string

datatype error = KeyError | ValueError | TypeError | AttributeError | IndexError | ReadError

text \<open>\<^verbatim>\<open>pd.isna(v)\<close>, Python truthiness \<^verbatim>\<open>bool(v)\<close> and \<^verbatim>\<open>str(v)\<close>.\<close>

fun pd_isna :: "pyval \<Rightarrow> bool" where
  "pd_isna PNone = True"
| "pd_isna PNaN = True"
| "pd_isna _ = False"

fun truthy :: "pyval \<Rightarrow> bool" where
  "truthy PNone = False"
| "truthy PNaN = True"
| "truthy (PNum r) = (r \<noteq> 0)"
| "truthy (PStr s) = (s \<noteq> [])"
| "truthy (PDate y m d) = True"

fun py_str :: "env \<Rightarrow> pyval \<Rightarrow> string" where
  "py_str E PNone = ''None''"
| "py_str E PNaN = ''nan''"
| "py_str E (PNum r) = str_num E r"
| "py_str E (PStr s) = s"
| "py_str E (PDate y m d) = str_date E y m d"

text \<open>
  The string methods are dynamically typed: \<^verbatim>\<open>v.lower()\<close> and \<^verbatim>\<open>v.strip()\<close> exist on
  text only (\<^verbatim>\<open>AttributeError\<close> otherwise) and \<^verbatim>\<open>p in v\<close> with a text pattern needs a
  text (\<^verbatim>\<open>TypeError\<close> otherwise).
\<close>

fun py_lower :: "pyval \<Rightarrow> error + pyval" where
  "py_lower (PStr s) = Inr (PStr (lower s))"
| "py_lower _ = Inl AttributeError"

fun py_strip :: "pyval \<Rightarrow> error + pyval" where
  "py_strip (PStr s) = Inr (PStr (strip s))"
| "py_strip _ = Inl AttributeError"

fun py_in :: "string \<Rightarrow> pyval \<Rightarrow> error + bool" where
  "py_in p (PStr s) = Inr (contains p s)"
| "py_in p _ = Inl TypeError"

text \<open>\<^verbatim>\<open>any(pattern in text for pattern in patterns)\<close>: stops at the first hit.\<close>

fun any_in :: "string list \<Rightarrow> pyval \<Rightarrow> error + bool" where
  "any_in [] v = Inr False"
| "any_in (p # ps) v =
     (case py_in p v of
        Inl e \<Rightarrow> Inl e
      | Inr True \<Rightarrow> Inr True
      | Inr False \<Rightarrow> any_in ps v)"

section \<open>Text classifiers\<close>

text \<open>
  \<^verbatim>\<open>is_vacant\<close>, \<^verbatim>\<open>is_own_use\<close> and \<^verbatim>\<open>extract_building\<close> of \<^verbatim>\<open>etl/utils.py\<close>.
  \<open>is_own_use\<close> formats both arguments into one text (\<^verbatim>\<open>f"{tenant_name} {suite_id}"\<close>),
  so a missing tenant prints as \<^verbatim>\<open>None\<close> or \<^verbatim>\<open>nan\<close>.
\<close>

definition is_vacant :: "env \<Rightarrow> pyval \<Rightarrow> string list \<Rightarrow> error + bool" where
  "is_vacant E tenant_name vacancy_patterns =
     (if pd_isna tenant_name \<or> \<not> truthy tenant_name then Inr True
      else case py_lower (PStr (py_str E tenant_name)) of
             Inl e \<Rightarrow> Inl e
           | Inr l \<Rightarrow> (case py_strip l of
                         Inl e \<Rightarrow> Inl e
                       | Inr tenant_lower \<Rightarrow> any_in vacancy_patterns tenant_lower))"

definition is_own_use :: "env \<Rightarrow> pyval \<Rightarrow> pyval \<Rightarrow> string list \<Rightarrow> error + bool" where
  "is_own_use E tenant_name suite_id own_use_patterns =
     (case py_lower (PStr (py_str E tenant_name @ '' '' @ py_str E suite_id)) of
        Inl e \<Rightarrow> Inl e
      | Inr l \<Rightarrow> (case py_strip l of
                    Inl e \<Rightarrow> Inl e
                  | Inr combined \<Rightarrow> any_in own_use_patterns combined))"

definition extract_building :: "env \<Rightarrow> pyval \<Rightarrow> string option" where
  "extract_building E suite_id =
     (if pd_isna suite_id then None
      else map_option (\<lambda>c. [c])
             (List.find (\<lambda>c. c = CHR ''A'' \<or> c = CHR ''B'') (upper (py_str E suite_id))))"

section \<open>Workbooks, data frames and numbers\<close>

text \<open>
  A workbook as openpyxl presents it: the sheets in workbook order (\<^verbatim>\<open>wb.sheetnames\<close>).
  A sheet is a worksheet, a grid of cell values row by row, or a chart sheet, which has no
  cells: \<^verbatim>\<open>ws[r]\<close> on a chart sheet is a \<^verbatim>\<open>TypeError\<close>, and \<^verbatim>\<open>ws.cell\<close> and
  \<^verbatim>\<open>ws.iter_rows\<close> are an \<^verbatim>\<open>AttributeError\<close>. \<open>cell_value ws r c\<close> is
  \<^verbatim>\<open>ws.cell(row=r, column=c).value\<close> of a worksheet with 1-based coordinates; a cell
  outside the stored grid is empty. \<open>row_values ws r\<close> are the values of \<^verbatim>\<open>ws[r]\<close>.
  \<open>get_sheet\<close> is \<^verbatim>\<open>wb[name]\<close>, a \<^verbatim>\<open>KeyError\<close> for a name the workbook does not
  have.
\<close>

type_synonym sheet = "pyval list list"

datatype sheet_obj = Worksheet sheet | Chartsheet

type_synonym workbook = "(string \<times> sheet_obj) list"

definition sheetnames :: "workbook \<Rightarrow> string list" where
  "sheetnames wb = map fst wb"

definition get_sheet :: "workbook \<Rightarrow> string \<Rightarrow> error + sheet_obj" where
  "get_sheet wb name = (case map_of wb name of None \<Rightarrow> Inl KeyError | Some ws \<Rightarrow> Inr ws)"

definition row_values :: "sheet \<Rightarrow> nat \<Rightarrow> pyval list" where
  "row_values ws r = (if 1 \<le> r \<and> r \<le> length ws then ws ! (r - 1) else [])"

definition cell_value :: "sheet \<Rightarrow> nat \<Rightarrow> nat \<Rightarrow> pyval" where
  "cell_value ws r c =
     (if 1 \<le> c \<and> c \<le> length (row_values ws r) then row_values ws r ! (c - 1) else PNone)"

text \<open>
  A pandas DataFrame: the column labels and the rows. \<open>col_index\<close> finds the column with
  a given text label (\<^verbatim>\<open>name in df.columns\<close>, \<^verbatim>\<open>df[name]\<close>); \<open>row_cell\<close> reads one
  element of a row, missing where the row is short.
\<close>

record frame =
  f_columns :: "pyval list"
  f_rows :: "pyval list list"

fun index_of :: "('a \<Rightarrow> bool) \<Rightarrow> 'a list \<Rightarrow> nat option" where
  "index_of P [] = None"
| "index_of P (x # xs) = (if P x then Some 0 else map_option Suc (index_of P xs))"

definition col_index :: "frame \<Rightarrow> string \<Rightarrow> nat option" where
  "col_index df name = index_of (\<lambda>c. c = PStr name) (f_columns df)"

definition row_cell :: "pyval list \<Rightarrow> nat \<Rightarrow> pyval" where
  "row_cell r j = (if j < length r then r ! j else PNaN)"

text \<open>
  The input of one ingestion run: the file's name without directory and extension
  (\<^verbatim>\<open>Path(excel_path).stem\<close>), the MD5 digest of its bytes (\<^verbatim>\<open>compute_file_md5\<close>), the
  workbook openpyxl loads from it, and the frame \<^verbatim>\<open>pd.read_excel(path, sheet_name=s,
  header=h)\<close> reads from it (or the error it raises). Byte-identical files agree on the
  last three.
\<close>

record xlsx =
  x_stem :: string
  x_md5 :: string
  x_book :: workbook
  x_frame :: "string \<Rightarrow> nat \<Rightarrow> error + frame"

text \<open>
  Decimal printing of a natural number (\<^verbatim>\<open>str(n)\<close>), two-digit months (\<^verbatim>\<open>%m\<close>), and
  \<^verbatim>\<open>int(s)\<close> on a text of decimal digits; \<^verbatim>\<open>int\<close> of anything else is a
  \<^verbatim>\<open>ValueError\<close> here (signs, blanks and underscores, which Python accepts, do not occur
  in a period's year).
\<close>

definition digit_char :: "nat \<Rightarrow> char" where
  "digit_char n = ''0123456789'' ! (n mod 10)"

fun show_nat :: "nat \<Rightarrow> string" where
  "show_nat n = (if n < 10 then [digit_char n] else show_nat (n div 10) @ [digit_char (n mod 10)])"

declare show_nat.simps [simp del]

definition pad2 :: "nat \<Rightarrow> string" where
  "pad2 n = (if n < 10 then CHR ''0'' # show_nat n else show_nat n)"

definition digit_val :: "char \<Rightarrow> nat" where
  "digit_val c = (case index_of (\<lambda>d. d = c) ''0123456789'' of Some k \<Rightarrow> k | None \<Rightarrow> 0)"

definition py_int :: "string \<Rightarrow> error + nat" where
  "py_int s =
     (if s \<noteq> [] \<and> list_all is_digit s then Inr (foldl (\<lambda>a c. 10 * a + digit_val c) 0 s)
      else Inl ValueError)"

text \<open>\<^verbatim>\<open>ts.strftime('%Y-%m')\<close> and \<^verbatim>\<open>s.split('-')[0]\<close>.\<close>

definition strftime_Ym :: "timestamp \<Rightarrow> string" where
  "strftime_Ym ts = show_nat (ts_year ts) @ ''-'' @ pad2 (ts_month ts)"

definition split_first :: "string \<Rightarrow> string" where
  "split_first s = takeWhile (\<lambda>c. c \<noteq> CHR ''-'') s"

text \<open>
  \<^verbatim>\<open>float(v)\<close>: a number is itself, NaN stays missing, a text is parsed or is a
  \<^verbatim>\<open>ValueError\<close>, and \<^verbatim>\<open>None\<close> and dates are a \<^verbatim>\<open>TypeError\<close>. The result \<open>None\<close> is NaN.
  \<^verbatim>\<open>pd.to_numeric(series, errors='coerce')\<close> (\<open>coerce_numeric\<close>) keeps numbers, and turns
  what it cannot read into NaN.
\<close>

fun py_float :: "env \<Rightarrow> pyval \<Rightarrow> error + real option" where
  "py_float E PNone = Inl TypeError"
| "py_float E PNaN = Inr None"
| "py_float E (PNum r) = Inr (Some r)"
| "py_float E (PStr s) = (case float_of_text E s of None \<Rightarrow> Inl ValueError | Some r \<Rightarrow> Inr r)"
| "py_float E (PDate y m d) = Inl TypeError"

fun coerce_numeric :: "env \<Rightarrow> pyval \<Rightarrow> real option" where
  "coerce_numeric E PNone = None"
| "coerce_numeric E PNaN = None"
| "coerce_numeric E (PNum r) = Some r"
| "coerce_numeric E v = numeric_of E v"

section \<open>Dashboard extractor\<close>

text \<open>
  \<^verbatim>\<open>_extract_dashboard_structured\<close> and \<^verbatim>\<open>ingest_dashboard_monthly\<close> of
  \<^verbatim>\<open>etl/ingest_excel.py\<close>. The labels of row 29 that are not blank and not a target
  label are the months; the k-th label (counted from 0 among the kept labels) reads its
  five metrics in column 9 + k of rows 30, 32, 33, 35 and 36. A metric cell that is empty
  or that \<^verbatim>\<open>float()\<close> rejects is missing (\<^verbatim>\<open>float\<close> raises nothing but the two errors
  the handler catches). With no label at all the frame has no column and
  \<^verbatim>\<open>df["month"]\<close> raises \<^verbatim>\<open>KeyError\<close>. A row whose label is not an English month
  name, or whose date pandas cannot parse, is dropped. On a chart sheet the first access,
  \<^verbatim>\<open>ws[header_row]\<close>, raises.
\<close>

record dashboard_fact =
  d_month :: timestamp
  d_rent_base :: "real option"
  d_collected :: "real option"
  d_uncollected :: "real option"
  d_leased_sqft :: "real option"
  d_price_per_sf_yr :: "real option"
  d_as_of_month :: string
  d_file_md5 :: string
  d_ingested_at :: string

definition header_labels :: "env \<Rightarrow> pyval list \<Rightarrow> string list" where
  "header_labels E cells =
     map (\<lambda>v. strip (py_str E v))
       (filter (\<lambda>v. truthy v \<and> strip (py_str E v) \<noteq> []) cells)"

definition months_raw_dashboard :: "env \<Rightarrow> sheet \<Rightarrow> string list" where
  "months_raw_dashboard E ws =
     filter (\<lambda>val. lower val \<notin> set [''collection target'', ''target''])
       (header_labels E (row_values ws 29))"

definition metric_value :: "env \<Rightarrow> pyval \<Rightarrow> real option" where
  "metric_value E cell =
     (if cell \<noteq> PNone then (case py_float E cell of Inr r \<Rightarrow> r | Inl e \<Rightarrow> None) else None)"

definition MONTH_NAMES :: "string list" where
  "MONTH_NAMES = [''january'', ''february'', ''march'', ''april'', ''may'', ''june'', ''july'',
                  ''august'', ''september'', ''october'', ''november'', ''december'']"

definition month_map :: "string \<Rightarrow> string \<Rightarrow> string option" where
  "month_map year name =
     map_option (\<lambda>k. year @ ''-'' @ pad2 (Suc k) @ ''-01'') (index_of (\<lambda>m. m = name) MONTH_NAMES)"

definition dashboard_row ::
  "env \<Rightarrow> sheet \<Rightarrow> string \<Rightarrow> nat \<times> string \<Rightarrow> dashboard_fact option" where
  "dashboard_row E ws year im =
     (case month_map year (lower (snd im)) of
        None \<Rightarrow> None
      | Some date \<Rightarrow>
          (case to_datetime E (PStr date) of
             None \<Rightarrow> None
           | Some ts \<Rightarrow>
               Some \<lparr> d_month = ts,
                      d_rent_base = metric_value E (cell_value ws 30 (9 + fst im)),
                      d_collected = metric_value E (cell_value ws 32 (9 + fst im)),
                      d_uncollected = metric_value E (cell_value ws 33 (9 + fst im)),
                      d_leased_sqft = metric_value E (cell_value ws 35 (9 + fst im)),
                      d_price_per_sf_yr = metric_value E (cell_value ws 36 (9 + fst im)),
                      d_as_of_month = [], d_file_md5 = [], d_ingested_at = [] \<rparr>))"

definition extract_dashboard_structured ::
  "env \<Rightarrow> workbook \<Rightarrow> string \<Rightarrow> string \<Rightarrow> error + dashboard_fact list" where
  "extract_dashboard_structured E wb sheet_name as_of_month =
     (case get_sheet wb sheet_name of
        Inl e \<Rightarrow> Inl e
      | Inr Chartsheet \<Rightarrow> Inl TypeError
      | Inr (Worksheet ws) \<Rightarrow>
          (let months_raw = months_raw_dashboard E ws in
           if months_raw = [] then Inl KeyError
           else Inr (List.map_filter (dashboard_row E ws (split_first as_of_month))
                       (enumerate 0 months_raw))))"

definition ingest_dashboard_monthly ::
  "env \<Rightarrow> xlsx \<Rightarrow> string \<Rightarrow> string \<Rightarrow> error + dashboard_fact list" where
  "ingest_dashboard_monthly E x as_of_month file_md5 =
     (case pick_sheet (sheetnames (x_book x)) DASHBOARD_SHEET_PATTERNS of
        None \<Rightarrow> Inl ValueError
      | Some sheet_name \<Rightarrow>
          if sheet_name = [] then Inl ValueError
          else (case extract_dashboard_structured E (x_book x) sheet_name as_of_month of
                  Inl e \<Rightarrow> Inl e
                | Inr df \<Rightarrow>
                    Inr (map (\<lambda>r. r\<lparr> d_as_of_month := as_of_month, d_file_md5 := file_md5,
                                      d_ingested_at := now_iso E \<rparr>) df)))"

section \<open>Expenses extractor\<close>

text \<open>
  \<^verbatim>\<open>ingest_expenses_monthly\<close>. The month labels are the non-blank cells of row 40 in
  columns 9 to 20; the k-th kept label reads column 9 + k of every row of the item table.
  A cell gives a record when it is not empty, \<^verbatim>\<open>float()\<close> accepts it and its label is
  an English month name. The whole body runs under \<^verbatim>\<open>except Exception\<close>: whatever is
  raised inside, the function returns \<^verbatim>\<open>None\<close>, as it does when there is no dashboard
  sheet or no record.
\<close>

record expense_fact =
  e_as_of_month :: string
  e_month :: timestamp
  e_item :: string
  e_actual :: "real option"
  e_category :: string
  e_file_md5 :: string
  e_ingested_at :: string

definition EXPENSE_ITEMS :: "(nat \<times> string \<times> string) list" where
  "EXPENSE_ITEMS =
     [(42, ''Electricity'', ''fixed''), (43, ''Internet'', ''fixed''),
      (44, ''Yardi Breeze'', ''fixed''), (45, ''Water'', ''fixed''),
      (46, ''Pest Control'', ''fixed''), (47, ''Supplies'', ''fixed''),
      (48, ''Nexus trash disposal'', ''fixed''), (49, ''Insurance'', ''fixed''),
      (50, ''Property management'', ''fixed''),
      (53, ''Repairs'', ''variable''), (54, ''Real Estate Agent'', ''variable''),
      (55, ''A/C Maintenance'', ''variable''), (56, ''Bank Fees'', ''variable''),
      (57, ''Light fixtures maintenance'', ''variable''),
      (60, ''Accrued Property tax'', ''other''), (61, ''Other'', ''other''),
      (66, ''Management - RP'', ''other''), (67, ''Other expenses'', ''other''),
      (68, ''CAPEX'', ''other'')]"

definition months_raw_expenses :: "env \<Rightarrow> sheet \<Rightarrow> string list" where
  "months_raw_expenses E ws = header_labels E (map (cell_value ws 40) [9..<21])"

definition expense_cell ::
  "env \<Rightarrow> sheet \<Rightarrow> string \<Rightarrow> nat \<Rightarrow> string \<Rightarrow> string \<Rightarrow> nat \<times> string \<Rightarrow>
     (string \<times> string \<times> real option \<times> string) list" where
  "expense_cell E ws year row_num item category im =
     (let actual_value = cell_value ws row_num (9 + fst im) in
      if actual_value \<noteq> PNone then
        (case py_float E actual_value of
           Inl e \<Rightarrow> []
         | Inr actual \<Rightarrow>
             (case month_map year (lower (snd im)) of
                None \<Rightarrow> []
              | Some month_date \<Rightarrow> [(month_date, item, actual, category)]))
      else [])"

definition expense_item_rows ::
  "env \<Rightarrow> sheet \<Rightarrow> string \<Rightarrow> string list \<Rightarrow> nat \<times> string \<times> string \<Rightarrow>
     (string \<times> string \<times> real option \<times> string) list" where
  "expense_item_rows E ws year months_raw it =
     (let row_num = fst it; item_name = fst (snd it); category = snd (snd it);
          item_cell = cell_value ws row_num 5;
          item = (if truthy item_cell then strip (py_str E item_cell) else item_name)
      in concat (map (expense_cell E ws year row_num item category) (enumerate 0 months_raw)))"

fun collect :: "(error + 'a) list \<Rightarrow> error + 'a list" where
  "collect [] = Inr []"
| "collect (Inl e # rs) = Inl e"
| "collect (Inr a # rs) = (case collect rs of Inl e \<Rightarrow> Inl e | Inr as \<Rightarrow> Inr (a # as))"

definition expense_fact_of ::
  "env \<Rightarrow> string \<Rightarrow> string \<Rightarrow> string \<times> string \<times> real option \<times> string \<Rightarrow>
     error + expense_fact" where
  "expense_fact_of E as_of_month file_md5 d =
     (case to_datetime E (PStr (fst d)) of
        None \<Rightarrow> Inl ValueError
      | Some ts \<Rightarrow>
          Inr \<lparr> e_as_of_month = as_of_month, e_month = ts, e_item = fst (snd d),
                e_actual = fst (snd (snd d)), e_category = snd (snd (snd d)),
                e_file_md5 = file_md5, e_ingested_at = now_iso E \<rparr>)"

definition expenses_body ::
  "env \<Rightarrow> xlsx \<Rightarrow> string \<Rightarrow> string \<Rightarrow> error + expense_fact list option" where
  "expenses_body E x as_of_month file_md5 =
     (case pick_sheet (sheetnames (x_book x)) DASHBOARD_SHEET_PATTERNS of
        None \<Rightarrow> Inr None
      | Some sheet_name \<Rightarrow>
          if sheet_name = [] then Inr None
          else (case get_sheet (x_book x) sheet_name of
                  Inl e \<Rightarrow> Inl e
                | Inr Chartsheet \<Rightarrow> Inl AttributeError
                | Inr (Worksheet ws) \<Rightarrow>
                    (case py_int (split_first as_of_month) of
                       Inl e \<Rightarrow> Inl e
                     | Inr year \<Rightarrow>
                         (let data = concat (map (expense_item_rows E ws (show_nat year)
                                                    (months_raw_expenses E ws)) EXPENSE_ITEMS)
                          in if data = [] then Inr None
                             else (case collect (map (expense_fact_of E as_of_month file_md5) data) of
                                     Inl e \<Rightarrow> Inl e
                                   | Inr df \<Rightarrow> Inr (Some df))))))"

definition ingest_expenses_monthly ::
  "env \<Rightarrow> xlsx \<Rightarrow> string \<Rightarrow> string \<Rightarrow> error + expense_fact list option" where
  "ingest_expenses_monthly E x as_of_month file_md5 =
     Inr (case expenses_body E x as_of_month file_md5 of Inl e \<Rightarrow> None | Inr df \<Rightarrow> df)"

section \<open>Lease snapshot extractor\<close>

text \<open>
  \<^verbatim>\<open>clean_dataframe\<close> of \<^verbatim>\<open>etl/utils.py\<close>: rows without any value are dropped, then
  columns without any value, then the text of every \<^verbatim>\<open>object\<close> column is trimmed. A
  column is an \<^verbatim>\<open>object\<close> column when it holds a text, or both a number and a date; in
  such a column \<^verbatim>\<open>.str.strip()\<close> turns every element that is not a text into NaN.
\<close>

definition is_object_column :: "pyval list \<Rightarrow> bool" where
  "is_object_column vs \<longleftrightarrow>
     list_ex (\<lambda>v. case v of PStr s \<Rightarrow> True | _ \<Rightarrow> False) vs \<or>
     (list_ex (\<lambda>v. case v of PNum r \<Rightarrow> True | _ \<Rightarrow> False) vs \<and>
      list_ex (\<lambda>v. case v of PDate y m d \<Rightarrow> True | _ \<Rightarrow> False) vs)"

definition str_strip_cell :: "pyval \<Rightarrow> pyval" where
  "str_strip_cell v = (case v of PStr s \<Rightarrow> PStr (strip s) | _ \<Rightarrow> PNaN)"

definition clean_dataframe :: "frame \<Rightarrow> frame" where
  "clean_dataframe df =
     (let rows1 = filter (\<lambda>r. \<not> list_all pd_isna r) (f_rows df);
          keep = filter (\<lambda>j. list_ex (\<lambda>r. \<not> pd_isna (row_cell r j)) rows1)
                   [0..<length (f_columns df)];
          clean = (\<lambda>r j. if is_object_column (map (\<lambda>r'. row_cell r' j) rows1)
                          then str_strip_cell (row_cell r j) else row_cell r j)
      in \<lparr> f_columns = map (\<lambda>j. f_columns df ! j) keep,
           f_rows = map (\<lambda>r. map (clean r) keep) rows1 \<rparr>)"

text \<open>
  \<^verbatim>\<open>ingest_lease_rate_snapshot\<close>. The frame read with the header in row 4 is cleaned
  and its known columns renamed. Without a suite column the suites are numbered
  \<^verbatim>\<open>SUITE_1\<close>, \<^verbatim>\<open>SUITE_2\<close>, ...; a missing suite id becomes the empty text and every
  row whose suite id is blank is dropped. A tenant column that is absent reads
  \<^verbatim>\<open>Unknown\<close>, a numeric column that is absent reads 0. A frame left without rows
  gives an empty result.
\<close>

record lease_fact =
  l_as_of_month :: string
  l_suite_id :: string
  l_building :: "string option"
  l_tenant :: pyval
  l_sqft :: "real option"
  l_rent_monthly :: "real option"
  l_rent_annual :: "real option"
  l_rent_psf_yr :: "real option"
  l_is_vacant :: bool
  l_is_own_use :: bool
  l_file_md5 :: string
  l_ingested_at :: string

definition COLUMN_MAP :: "(string \<times> string) list" where
  "COLUMN_MAP = [(''Suite'', ''suite_id''), (''Tenant'', ''tenant''), (''Sq Ft'', ''sqft''),
                 (''Monthly Rent ($)'', ''rent_monthly''), (''Annual Rent ($)'', ''rent_annual'')]"

definition rename_columns :: "frame \<Rightarrow> frame" where
  "rename_columns df =
     df\<lparr> f_columns :=
           map (\<lambda>c. case c of
                       PStr s \<Rightarrow> (case map_of COLUMN_MAP s of Some t \<Rightarrow> PStr t | None \<Rightarrow> c)
                     | _ \<Rightarrow> c) (f_columns df) \<rparr>"

definition suite_text :: "env \<Rightarrow> frame \<Rightarrow> nat \<times> pyval list \<Rightarrow> string" where
  "suite_text E df ir =
     (case col_index df ''suite_id'' of
        None \<Rightarrow> ''SUITE_'' @ show_nat (fst ir + 1)
      | Some j \<Rightarrow> (if pd_isna (row_cell (snd ir) j) then [] else py_str E (row_cell (snd ir) j)))"

definition numeric_column :: "env \<Rightarrow> frame \<Rightarrow> string \<Rightarrow> pyval list \<Rightarrow> real option" where
  "numeric_column E df col r =
     (case col_index df col of
        Some j \<Rightarrow> coerce_numeric E (row_cell r j)
      | None \<Rightarrow> Some 0)"

definition rent_psf_yr :: "real option \<Rightarrow> real option \<Rightarrow> real option" where
  "rent_psf_yr rent_annual sqft =
     (case sqft of
        Some s \<Rightarrow> (if s > 0 then map_option (\<lambda>a. a / s) rent_annual else Some 0)
      | None \<Rightarrow> Some 0)"

definition lease_row ::
  "env \<Rightarrow> frame \<Rightarrow> string \<Rightarrow> string \<Rightarrow> nat \<times> pyval list \<Rightarrow> error + lease_fact" where
  "lease_row E df as_of_month file_md5 ir =
     (let suite_id = suite_text E df ir;
          tenant = (case col_index df ''tenant'' of
                      None \<Rightarrow> PStr ''Unknown''
                    | Some j \<Rightarrow> row_cell (snd ir) j);
          sqft = numeric_column E df ''sqft'' (snd ir);
          rent_monthly = numeric_column E df ''rent_monthly'' (snd ir);
          rent_annual = numeric_column E df ''rent_annual'' (snd ir)
      in case is_vacant E tenant VACANCY_PATTERNS of
           Inl e \<Rightarrow> Inl e
         | Inr vacant \<Rightarrow>
             (case is_own_use E (PStr (py_str E tenant)) (PStr suite_id) OWN_USE_PATTERNS of
                Inl e \<Rightarrow> Inl e
              | Inr own_use \<Rightarrow>
                  Inr \<lparr> l_as_of_month = as_of_month, l_suite_id = suite_id,
                        l_building = extract_building E (PStr suite_id), l_tenant = tenant,
                        l_sqft = sqft, l_rent_monthly = rent_monthly, l_rent_annual = rent_annual,
                        l_rent_psf_yr = rent_psf_yr rent_annual sqft,
                        l_is_vacant = vacant, l_is_own_use = own_use,
                        l_file_md5 = file_md5, l_ingested_at = now_iso E \<rparr>))"

definition lease_rows ::
  "env \<Rightarrow> frame \<Rightarrow> string \<Rightarrow> string \<Rightarrow> error + lease_fact list" where
  "lease_rows E df as_of_month file_md5 =
     (let kept = filter (\<lambda>ir. strip (suite_text E df ir) \<noteq> []) (enumerate 0 (f_rows df))
      in collect (map (lease_row E df as_of_month file_md5) kept))"

definition ingest_lease_rate_snapshot ::
  "env \<Rightarrow> xlsx \<Rightarrow> string \<Rightarrow> string \<Rightarrow> error + lease_fact list" where
  "ingest_lease_rate_snapshot E x as_of_month file_md5 =
     (case pick_sheet (sheetnames (x_book x)) LEASE_RATE_SHEET_PATTERNS of
        None \<Rightarrow> Inl ValueError
      | Some sheet_name \<Rightarrow>
          if sheet_name = [] then Inl ValueError
          else (case x_frame x sheet_name 3 of
                  Inl e \<Rightarrow> Inl e
                | Inr raw \<Rightarrow>
                    lease_rows E (rename_columns (clean_dataframe raw)) as_of_month file_md5))"

section \<open>Period detector\<close>

text \<open>
  \<^verbatim>\<open>detect_as_of_month(excel_path, dashboard_sheet_name)\<close> of \<^verbatim>\<open>etl/utils.py\<close>.

  Strategy 1 runs inside \<^verbatim>\<open>try ... except Exception\<close>: a frame that cannot be read, a
  month column without any value (\<^verbatim>\<open>.iloc[0]\<close> raises) or a value that is not a date
  all fall through to strategy 2.
\<close>

definition month_column_period :: "env \<Rightarrow> xlsx \<Rightarrow> string option \<Rightarrow> string option" where
  "month_column_period E x dashboard_sheet_name =
     (case dashboard_sheet_name of
        None \<Rightarrow> None
      | Some name \<Rightarrow>
          if name \<noteq> [] \<and> name \<in> set (sheetnames (x_book x)) then
            (case x_frame x name 28 of
               Inl e \<Rightarrow> None
             | Inr df \<Rightarrow>
                 (case index_of (\<lambda>c. lower (py_str E c) = ''month'') (f_columns df) of
                    None \<Rightarrow> None
                  | Some j \<Rightarrow>
                      (case filter (\<lambda>v. \<not> pd_isna v) (map (\<lambda>r. row_cell r j) (f_rows df)) of
                         [] \<Rightarrow> None
                       | first_month # rest \<Rightarrow>
                           (case to_datetime E first_month of
                              None \<Rightarrow> None
                            | Some parsed \<Rightarrow> Some (strftime_Ym parsed)))))
          else None)"

text \<open>
  Strategy 2: four nested loops (sheets, the first 50 rows, the cells of a row, the
  offsets 1 and 2) that return from the innermost one at the first adjacent value that is
  truthy and parses as a date. Only the reading of the adjacent cell is guarded by a
  handler: \<^verbatim>\<open>ws.iter_rows\<close> on a chart sheet raises out of the function.
\<close>

definition is_period_cell :: "pyval \<Rightarrow> bool" where
  "is_period_cell v = (case v of PStr s \<Rightarrow> s \<noteq> [] \<and> contains ''period'' (lower s) | _ \<Rightarrow> False)"

fun try_offsets :: "env \<Rightarrow> sheet \<Rightarrow> nat \<Rightarrow> nat \<Rightarrow> nat list \<Rightarrow> string option" where
  "try_offsets E ws r c [] = None"
| "try_offsets E ws r c (offset # offsets) =
     (let adjacent = cell_value ws r (c + offset) in
      if truthy adjacent then
        (case to_datetime E adjacent of
           Some parsed \<Rightarrow> Some (strftime_Ym parsed)
         | None \<Rightarrow> try_offsets E ws r c offsets)
      else try_offsets E ws r c offsets)"

fun scan_cells :: "env \<Rightarrow> sheet \<Rightarrow> nat \<Rightarrow> (nat \<times> pyval) list \<Rightarrow> string option" where
  "scan_cells E ws r [] = None"
| "scan_cells E ws r (cv # cells) =
     (if is_period_cell (snd cv) then
        (case try_offsets E ws r (fst cv) [1, 2] of
           Some as_of \<Rightarrow> Some as_of
         | None \<Rightarrow> scan_cells E ws r cells)
      else scan_cells E ws r cells)"

fun scan_rows :: "env \<Rightarrow> sheet \<Rightarrow> (nat \<times> pyval list) list \<Rightarrow> string option" where
  "scan_rows E ws [] = None"
| "scan_rows E ws (rr # rows) =
     (case scan_cells E ws (fst rr) (enumerate 1 (snd rr)) of
        Some as_of \<Rightarrow> Some as_of
      | None \<Rightarrow> scan_rows E ws rows)"

fun scan_sheets :: "env \<Rightarrow> workbook \<Rightarrow> string list \<Rightarrow> error + string option" where
  "scan_sheets E wb [] = Inr None"
| "scan_sheets E wb (sheet_name # names) =
     (case get_sheet wb sheet_name of
        Inl e \<Rightarrow> Inl e
      | Inr Chartsheet \<Rightarrow> Inl AttributeError
      | Inr (Worksheet ws) \<Rightarrow>
          (case scan_rows E ws (enumerate 1 (take 50 ws)) of
             Some as_of \<Rightarrow> Inr (Some as_of)
           | None \<Rightarrow> scan_sheets E wb names))"

text \<open>
  Strategy 3: \<^verbatim>\<open>re.search(r'(20\d{2})[-_](\d{2})', stem)\<close>, the leftmost match. Among
  8-bit characters \<^verbatim>\<open>\d\<close> matches the ASCII digits only. The result joins the two
  groups with a hyphen.
\<close>

fun match_ym :: "string \<Rightarrow> (string \<times> string) option" where
  "match_ym (c1 # c2 # c3 # c4 # c5 # c6 # c7 # rest) =
     (if c1 = CHR ''2'' \<and> c2 = CHR ''0'' \<and> is_digit c3 \<and> is_digit c4 \<and>
         (c5 = CHR ''-'' \<or> c5 = CHR ''_'') \<and> is_digit c6 \<and> is_digit c7
      then Some ([c1, c2, c3, c4], [c6, c7]) else None)"
| "match_ym s = None"

fun re_search_ym :: "string \<Rightarrow> (string \<times> string) option" where
  "re_search_ym [] = None"
| "re_search_ym (c # cs) =
     (case match_ym (c # cs) of
        Some g \<Rightarrow> Some g
      | None \<Rightarrow> re_search_ym cs)"

definition detect_as_of_month :: "env \<Rightarrow> xlsx \<Rightarrow> string option \<Rightarrow> error + string" where
  "detect_as_of_month E x dashboard_sheet_name =
     (case month_column_period E x dashboard_sheet_name of
        Some as_of \<Rightarrow> Inr as_of
      | None \<Rightarrow>
          (case scan_sheets E (x_book x) (sheetnames (x_book x)) of
             Inl e \<Rightarrow> Inl e
           | Inr (Some as_of) \<Rightarrow> Inr as_of
           | Inr None \<Rightarrow>
               (case re_search_ym (x_stem x) of
                  Some g \<Rightarrow> Inr (fst g @ ''-'' @ snd g)
                | None \<Rightarrow> Inr (strftime_Ym (now_month E)))))"

section \<open>Partitions, the audit log and the ingestion run\<close>

text \<open>
  The bronze store: for each table and each period the parquet files of the partition
  directory \<^verbatim>\<open>as_of_month=<period>\<close>, by name, in the order
  \<^verbatim>\<open>glob("*.parquet")\<close> lists them (an absent directory has no file). A file holds the
  rows of one of the three tables, or is a file this program did not write (\<open>OtherPq\<close>,
  with the values of its \<^verbatim>\<open>_file_md5\<close> column if it can be read and has one).
\<close>

datatype table = Dashboard | Expenses | LeaseRate

datatype parquet =
    DashboardPq "dashboard_fact list"
  | ExpensesPq "expense_fact list"
  | LeasePq "lease_fact list"
  | OtherPq "string list option"

record log_entry =
  g_file_md5 :: string
  g_as_of_month :: string
  g_rows_ingested :: nat
  g_started_at :: string
  g_finished_at :: string
  g_status :: string

record state =
  bronze :: "table \<Rightarrow> string \<Rightarrow> (string \<times> parquet) list"
  ingestion_log :: "log_entry list"

fun md5_column :: "parquet \<Rightarrow> string list option" where
  "md5_column (DashboardPq rows) = Some (map d_file_md5 rows)"
| "md5_column (ExpensesPq rows) = Some (map e_file_md5 rows)"
| "md5_column (LeasePq rows) = Some (map l_file_md5 rows)"
| "md5_column (OtherPq c) = c"

text \<open>
  \<^verbatim>\<open>check_already_ingested\<close>: only the first file the directory listing gives is read,
  and the digest is looked up among the values of its \<^verbatim>\<open>_file_md5\<close> column.
\<close>

definition check_already_ingested ::
  "string \<Rightarrow> string \<Rightarrow> (string \<Rightarrow> (string \<times> parquet) list) \<Rightarrow> bool" where
  "check_already_ingested file_md5 as_of_month partition_path =
     (case partition_path as_of_month of
        [] \<Rightarrow> False
      | sample # others \<Rightarrow>
          (case md5_column (snd sample) of
             None \<Rightarrow> False
           | Some existing_md5s \<Rightarrow> file_md5 \<in> set existing_md5s))"

fun bronze_table_name :: "table \<Rightarrow> string" where
  "bronze_table_name Dashboard = ''raw_dashboard_monthly''"
| "bronze_table_name Expenses = ''raw_expenses_monthly''"
| "bronze_table_name LeaseRate = ''raw_lease_rate_snapshot''"

definition output_file :: "table \<Rightarrow> string \<Rightarrow> string" where
  "output_file t as_of_month = bronze_table_name t @ ''_'' @ as_of_month @ ''.parquet''"

text \<open>
  \<^verbatim>\<open>save_bronze_partition\<close> writes one file whose name depends on the table and the
  period only: a file of that name is replaced, otherwise the file is added to the
  directory. \<^verbatim>\<open>log_ingestion\<close> appends one line to the log. Writing is taken to succeed,
  and the clock is read once per run.
\<close>

definition save_bronze_partition :: "parquet \<Rightarrow> table \<Rightarrow> string \<Rightarrow> state \<Rightarrow> state" where
  "save_bronze_partition df t as_of_month st =
     st\<lparr> bronze := (bronze st)
           (t := (bronze st t)
              (as_of_month := AList.update (output_file t as_of_month) df (bronze st t as_of_month))) \<rparr>"

definition log_ingestion :: "env \<Rightarrow> string \<Rightarrow> string \<Rightarrow> nat \<Rightarrow> string \<Rightarrow> state \<Rightarrow> state" where
  "log_ingestion E file_md5 as_of_month rows_ingested status st =
     st\<lparr> ingestion_log := ingestion_log st @
           [\<lparr> g_file_md5 = file_md5, g_as_of_month = as_of_month,
              g_rows_ingested = rows_ingested, g_started_at = now_iso E,
              g_finished_at = now_iso E, g_status = status \<rparr>] \<rparr>"

text \<open>
  \<^verbatim>\<open>main\<close> of \<^verbatim>\<open>etl/ingest_excel.py\<close>, with the three extractors as parameters
  (\<open>main_with\<close>) and with the extractors of this file (\<open>main\<close>). The result says how the
  run ended: skipped as a duplicate, completed with the total row count, or left by an
  exception.
\<close>

record extractors =
  ex_dashboard :: "env \<Rightarrow> xlsx \<Rightarrow> string \<Rightarrow> string \<Rightarrow> error + dashboard_fact list"
  ex_expenses :: "env \<Rightarrow> xlsx \<Rightarrow> string \<Rightarrow> string \<Rightarrow> error + expense_fact list option"
  ex_lease :: "env \<Rightarrow> xlsx \<Rightarrow> string \<Rightarrow> string \<Rightarrow> error + lease_fact list"

datatype outcome = Skipped | Completed nat | Raised error

definition expenses_step ::
  "extractors \<Rightarrow> env \<Rightarrow> xlsx \<Rightarrow> string \<Rightarrow> string \<Rightarrow> nat \<times> state \<Rightarrow> nat \<times> state" where
  "expenses_step X E x as_of_month file_md5 ts =
     (case ex_expenses X E x as_of_month file_md5 of
        Inl e \<Rightarrow> ts
      | Inr None \<Rightarrow> ts
      | Inr (Some df_expenses) \<Rightarrow>
          if length df_expenses > 0
          then (fst ts + length df_expenses,
                save_bronze_partition (ExpensesPq df_expenses) Expenses as_of_month (snd ts))
          else ts)"

definition main_with :: "extractors \<Rightarrow> env \<Rightarrow> xlsx \<Rightarrow> state \<Rightarrow> outcome \<times> state" where
  "main_with X E x st =
     (let file_md5 = x_md5 x;
          dashboard_sheet = pick_sheet (sheetnames (x_book x)) DASHBOARD_SHEET_PATTERNS
      in case detect_as_of_month E x dashboard_sheet of
           Inl e \<Rightarrow> (Raised e, st)
         | Inr as_of_month \<Rightarrow>
             if check_already_ingested file_md5 as_of_month (bronze st Dashboard)
             then (Skipped, log_ingestion E file_md5 as_of_month 0 ''skipped'' st)
             else
               (case ex_dashboard X E x as_of_month file_md5 of
                  Inl e \<Rightarrow> (Raised e, log_ingestion E file_md5 as_of_month 0 ''failed'' st)
                | Inr df_dashboard \<Rightarrow>
                    (let ts1 = (length df_dashboard,
                                save_bronze_partition (DashboardPq df_dashboard) Dashboard
                                  as_of_month st);
                         ts2 = expenses_step X E x as_of_month file_md5 ts1
                     in case ex_lease X E x as_of_month file_md5 of
                          Inl e \<Rightarrow>
                            (Raised e,
                             log_ingestion E file_md5 as_of_month (fst ts2) ''failed'' (snd ts2))
                        | Inr df_lease \<Rightarrow>
                            (Completed (fst ts2 + length df_lease),
                             log_ingestion E file_md5 as_of_month (fst ts2 + length df_lease)
                               ''success''
                               (save_bronze_partition (LeasePq df_lease) LeaseRate as_of_month
                                  (snd ts2))))))"

definition this_extractors :: extractors where
  "this_extractors =
     \<lparr> ex_dashboard = ingest_dashboard_monthly,
       ex_expenses = ingest_expenses_monthly,
       ex_lease = ingest_lease_rate_snapshot \<rparr>"

definition main :: "env \<Rightarrow> xlsx \<Rightarrow> state \<Rightarrow> outcome \<times> state" where
  "main E x st = main_with this_extractors E x st"

section \<open>Schema validation\<close>

text \<open>
  The pandera schemas of \<^verbatim>\<open>etl/quality.py\<close>, column by column: the type, the checks
  and whether nulls are allowed. \<open>schema_errors\<close> is \<^verbatim>\<open>schema.validate(df, lazy=True)\<close>:
  it collects every failure instead of stopping at the first, and the frame is valid when
  there is none. A check skips nulls, as pandera's checks do. The rows of a stored file
  are typed here, so a row is presented to the schema as its list of named fields.
\<close>

datatype field = FNull | FFloat real | FString string | FBool bool | FDateTime timestamp

datatype dtype = PaString | PaDateTime | PaFloat | PaBool

datatype check = Ge real | IsIn "string list"

datatype column = Column dtype "check list" bool

datatype failure =
    MissingColumn string
  | NullValue string nat
  | WrongType string nat
  | FailedCheck string check nat

fun dtype_ok :: "dtype \<Rightarrow> field \<Rightarrow> bool" where
  "dtype_ok PaString (FString s) = True"
| "dtype_ok PaDateTime (FDateTime t) = True"
| "dtype_ok PaFloat (FFloat r) = True"
| "dtype_ok PaBool (FBool b) = True"
| "dtype_ok d f = False"

fun check_ok :: "check \<Rightarrow> field \<Rightarrow> bool" where
  "check_ok (Ge m) (FFloat r) = (m \<le> r)"
| "check_ok (IsIn vs) (FString s) = (s \<in> set vs)"
| "check_ok c f = False"

fun cell_failures :: "string \<Rightarrow> column \<Rightarrow> nat \<times> (string \<times> field) list \<Rightarrow> failure list" where
  "cell_failures name (Column d checks nullable) (i, row) =
     (case map_of row name of
        None \<Rightarrow> [MissingColumn name]
      | Some FNull \<Rightarrow> (if nullable then [] else [NullValue name i])
      | Some f \<Rightarrow>
          (if dtype_ok d f
           then map (\<lambda>c. FailedCheck name c i) (filter (\<lambda>c. \<not> check_ok c f) checks)
           else [WrongType name i]))"

definition schema_errors ::
  "(string \<times> column) list \<Rightarrow> (string \<times> field) list list \<Rightarrow> failure list" where
  "schema_errors schema df =
     concat (map (\<lambda>nc. concat (map (cell_failures (fst nc) (snd nc)) (enumerate 0 df))) schema)"

definition schema_dashboard_monthly :: "(string \<times> column) list" where
  "schema_dashboard_monthly =
     [(''as_of_month'', Column PaString [] False),
      (''month'', Column PaDateTime [] False),
      (''rent_base'', Column PaFloat [Ge 0] True),
      (''collected'', Column PaFloat [Ge 0] True),
      (''uncollected'', Column PaFloat [] True),
      (''leased_sqft'', Column PaFloat [Ge 0] True),
      (''price_per_sf_yr'', Column PaFloat [Ge 0] True),
      (''_file_md5'', Column PaString [] False),
      (''_ingested_at'', Column PaString [] False)]"

definition schema_lease_rate :: "(string \<times> column) list" where
  "schema_lease_rate =
     [(''as_of_month'', Column PaString [] False),
      (''suite_id'', Column PaString [] False),
      (''building'', Column PaString [IsIn [''A'', ''B'']] True),
      (''tenant'', Column PaString [] False),
      (''sqft'', Column PaFloat [Ge 0] True),
      (''rent_monthly'', Column PaFloat [Ge 0] True),
      (''rent_annual'', Column PaFloat [Ge 0] True),
      (''rent_psf_yr'', Column PaFloat [Ge 0] True),
      (''is_vacant'', Column PaBool [] False),
      (''is_own_use'', Column PaBool [] False),
      (''_file_md5'', Column PaString [] False),
      (''_ingested_at'', Column PaString [] False)]"

definition float_field :: "real option \<Rightarrow> field" where
  "float_field v = (case v of None \<Rightarrow> FNull | Some r \<Rightarrow> FFloat r)"

definition dashboard_fields :: "dashboard_fact \<Rightarrow> (string \<times> field) list" where
  "dashboard_fields r =
     [(''month'', FDateTime (d_month r)),
      (''rent_base'', float_field (d_rent_base r)),
      (''collected'', float_field (d_collected r)),
      (''uncollected'', float_field (d_uncollected r)),
      (''leased_sqft'', float_field (d_leased_sqft r)),
      (''price_per_sf_yr'', float_field (d_price_per_sf_yr r)),
      (''as_of_month'', FString (d_as_of_month r)),
      (''_file_md5'', FString (d_file_md5 r)),
      (''_ingested_at'', FString (d_ingested_at r))]"

text \<open>
  The tenant column is declared as text and the schema coerces: a tenant that is a
  number or a date is presented as its printed text, a missing one as null.
\<close>

definition lease_fields :: "env \<Rightarrow> lease_fact \<Rightarrow> (string \<times> field) list" where
  "lease_fields E r =
     [(''as_of_month'', FString (l_as_of_month r)),
      (''suite_id'', FString (l_suite_id r)),
      (''building'', (case l_building r of None \<Rightarrow> FNull | Some b \<Rightarrow> FString b)),
      (''tenant'', (if pd_isna (l_tenant r) then FNull else FString (py_str E (l_tenant r)))),
      (''sqft'', float_field (l_sqft r)),
      (''rent_monthly'', float_field (l_rent_monthly r)),
      (''rent_annual'', float_field (l_rent_annual r)),
      (''rent_psf_yr'', float_field (l_rent_psf_yr r)),
      (''is_vacant'', FBool (l_is_vacant r)),
      (''is_own_use'', FBool (l_is_own_use r)),
      (''_file_md5'', FString (l_file_md5 r)),
      (''_ingested_at'', FString (l_ingested_at r))]"

text \<open>A currency or area value that is null or not negative.\<close>

definition null_or_nonneg :: "real option \<Rightarrow> bool" where
  "null_or_nonneg v = (case v of None \<Rightarrow> True | Some r \<Rightarrow> 0 \<le> r)"

section \<open>The period detector in the words of its contract\<close>

text \<open>
  The three strategies stated as searches, to be compared with the loops above.
  \<open>adjacent_dates\<close> are the dates found in the first and then the second cell to the
  right of a cell (a cell that is empty, zero or the empty text is not tried);
  \<open>period_hits\<close> lists them for every cell that contains "period", through the first 50
  rows of every sheet in workbook order; \<open>filename_matches\<close> lists the matches of the
  pattern in the file name by starting position. A timestamp is well formed when its
  year has four digits and its month lies between 1 and 12, as every pandas timestamp
  does; \<open>is_yyyy_mm\<close> is the shape \<^verbatim>\<open>YYYY-MM\<close>.
\<close>

definition sheet_named :: "workbook \<Rightarrow> string \<Rightarrow> sheet" where
  "sheet_named wb name = (case map_of wb name of Some (Worksheet ws) \<Rightarrow> ws | _ \<Rightarrow> [])"

definition all_worksheets :: "workbook \<Rightarrow> bool" where
  "all_worksheets wb = list_all (\<lambda>ns. snd ns \<noteq> Chartsheet) wb"

definition adjacent_dates :: "env \<Rightarrow> sheet \<Rightarrow> nat \<Rightarrow> nat \<Rightarrow> timestamp list" where
  "adjacent_dates E ws r c =
     concat (map (\<lambda>offset. if truthy (cell_value ws r (c + offset))
                            then (case to_datetime E (cell_value ws r (c + offset)) of
                                    Some ts \<Rightarrow> [ts]
                                  | None \<Rightarrow> [])
                            else []) [1, 2])"

definition row_hits :: "env \<Rightarrow> sheet \<Rightarrow> nat \<times> pyval list \<Rightarrow> timestamp list" where
  "row_hits E ws rr =
     concat (map (\<lambda>cv. if is_period_cell (snd cv) then adjacent_dates E ws (fst rr) (fst cv)
                        else []) (enumerate 1 (snd rr)))"

definition sheet_hits :: "env \<Rightarrow> sheet \<Rightarrow> timestamp list" where
  "sheet_hits E ws = concat (map (row_hits E ws) (enumerate 1 (take 50 ws)))"

definition period_hits :: "env \<Rightarrow> workbook \<Rightarrow> timestamp list" where
  "period_hits E wb = concat (map (\<lambda>name. sheet_hits E (sheet_named wb name)) (sheetnames wb))"

definition first_period :: "timestamp list \<Rightarrow> string option" where
  "first_period hits = (case hits of [] \<Rightarrow> None | ts # rest \<Rightarrow> Some (strftime_Ym ts))"

definition filename_matches :: "string \<Rightarrow> (string \<times> string) list" where
  "filename_matches s =
     concat (map (\<lambda>k. case match_ym (drop k s) of Some g \<Rightarrow> [g] | None \<Rightarrow> [])
               [0..<length s])"

fun is_yyyy_mm :: "string \<Rightarrow> bool" where
  "is_yyyy_mm [y1, y2, y3, y4, h, m1, m2] =
     (is_digit y1 \<and> is_digit y2 \<and> is_digit y3 \<and> is_digit y4 \<and> h = CHR ''-'' \<and>
      is_digit m1 \<and> is_digit m2)"
| "is_yyyy_mm s = False"

definition valid_ts :: "timestamp \<Rightarrow> bool" where
  "valid_ts ts \<longleftrightarrow>
     1000 \<le> ts_year ts \<and> ts_year ts \<le> 9999 \<and> 1 \<le> ts_month ts \<and> ts_month ts \<le> 12"

definition valid_env :: "env \<Rightarrow> bool" where
  "valid_env E \<longleftrightarrow>
     (\<forall>v ts. to_datetime E v = Some ts \<longrightarrow> valid_ts ts) \<and> valid_ts (now_month E)"

text \<open>The rows a store holds for one period of a table, over all files of the partition.\<close>

definition stored_dashboard_rows :: "state \<Rightarrow> string \<Rightarrow> dashboard_fact list" where
  "stored_dashboard_rows st as_of_month =
     concat (map (\<lambda>nf. case snd nf of DashboardPq rows \<Rightarrow> rows | _ \<Rightarrow> [])
               (bronze st Dashboard as_of_month))"

definition stored_lease_rows :: "state \<Rightarrow> string \<Rightarrow> lease_fact list" where
  "stored_lease_rows st as_of_month =
     concat (map (\<lambda>nf. case snd nf of LeasePq rows \<Rightarrow> rows | _ \<Rightarrow> [])
               (bronze st LeaseRate as_of_month))"

section \<open>Worked examples\<close>

text \<open>
  A fixed environment for the worked examples. It parses a date cell and a text of the
  form \<^verbatim>\<open>YYYY-MM-DD\<close> as dates (with a four-digit year and a month from 1 to 12) and
  nothing else, reads no text as a number, and reads the clock as November 2026. The
  examples never print a number or a date.
\<close>

definition parse_iso_date :: "string \<Rightarrow> timestamp option" where
  "parse_iso_date s =
     (case (py_int (take 4 s), py_int (take 2 (drop 5 s)), py_int (drop 8 s)) of
        (Inr y, Inr m, Inr d) \<Rightarrow>
          if length s = 10 \<and> s ! 4 = CHR ''-'' \<and> s ! 7 = CHR ''-'' \<and>
             valid_ts \<lparr>ts_year = y, ts_month = m\<rparr>
          then Some \<lparr>ts_year = y, ts_month = m\<rparr> else None
      | _ \<Rightarrow> None)"

definition example_env :: env where
  "example_env =
     \<lparr> str_num = (\<lambda>r. ''0.0''),
       str_date = (\<lambda>y m d. ''2025-01-01 00:00:00''),
       float_of_text = (\<lambda>s. None),
       numeric_of = (\<lambda>v. None),
       to_datetime = (\<lambda>v. case v of
                            PDate y m d \<Rightarrow>
                              if valid_ts \<lparr>ts_year = y, ts_month = m\<rparr>
                              then Some \<lparr>ts_year = y, ts_month = m\<rparr> else None
                          | PStr s \<Rightarrow> parse_iso_date s
                          | _ \<Rightarrow> None),
       now_month = \<lparr>ts_year = 2026, ts_month = 11\<rparr>,
       now_iso = ''2026-11-04T09:00:00'' \<rparr>"

text \<open>
  The frame pandas reads from a grid of text and number cells whose header row is the
  widest: the labels of the header row (an empty header cell is labelled
  \<^verbatim>\<open>Unnamed: k\<close>) and the rows below it, an empty cell missing. \<open>plain_xlsx\<close> is a file
  of worksheets that are read that way.
\<close>

definition read_plain :: "sheet \<Rightarrow> nat \<Rightarrow> error + frame" where
  "read_plain ws h =
     (if h < length ws
      then Inr \<lparr> f_columns = map (\<lambda>kv. if snd kv = PNone then PStr (''Unnamed: '' @ show_nat (fst kv))
                                         else snd kv) (enumerate 0 (ws ! h)),
                 f_rows = map (map (\<lambda>v. if v = PNone then PNaN else v)) (drop (Suc h) ws) \<rparr>
      else Inl ReadError)"

definition plain_xlsx :: "string \<Rightarrow> string \<Rightarrow> (string \<times> sheet) list \<Rightarrow> xlsx" where
  "plain_xlsx stem md5 wb =
     \<lparr> x_stem = stem, x_md5 = md5, x_book = map (\<lambda>nw. (fst nw, Worksheet (snd nw))) wb,
       x_frame = (\<lambda>name h. case map_of wb name of
                               None \<Rightarrow> Inl ReadError
                             | Some ws \<Rightarrow> read_plain ws h) \<rparr>"

definition empty_state :: state where
  "empty_state = \<lparr> bronze = (\<lambda>t p. []), ingestion_log = [] \<rparr>"

text \<open>
  A dashboard sheet with the given labels in row 29 from column 9 on (and the target
  label in column 1) and the given base rents in row 30; a lease sheet with the header in
  row 4 and the given rows below it.
\<close>

definition dashboard_sheet :: "pyval list \<Rightarrow> pyval list \<Rightarrow> sheet" where
  "dashboard_sheet labels rents =
     replicate 28 [] @
     [PStr ''Collection Target'' # replicate 7 PNone @ labels,
      replicate 8 PNone @ rents]"

definition lease_sheet :: "pyval list list \<Rightarrow> sheet" where
  "lease_sheet rows =
     replicate 3 [] @
     [[PStr ''Suite'', PStr ''Tenant'', PStr ''Sq Ft'', PStr ''Monthly Rent ($)'',
       PStr ''Annual Rent ($)'']] @ rows"

text \<open>
  Example files. \<open>file_good\<close> has two months and two suites; \<open>file_spanish\<close> labels its
  months in Spanish; \<open>file_duplicate_suite\<close> lists suite 101A twice;
  \<open>file_negative_rent\<close> has a negative base rent; \<open>file_no_lease\<close> and
  \<open>file_no_dashboard\<close> lack a required sheet.
\<close>

definition file_good :: xlsx where
  "file_good = plain_xlsx ''TCO_2025-01'' ''9e107d9d372bb6826bd81d3542a419d6''
     [(''Dashboard 2025'',
         dashboard_sheet [PStr ''January'', PStr ''February''] [PNum 1000, PNum 1100]),
      (''Lease Rate'',
         lease_sheet [[PStr ''101A'', PStr ''Acme'', PNum 100, PNum 200, PNum 2400],
                      [PStr ''102B'', PStr ''VACANTE'', PNum 0, PNum 0, PNum 0]])]"

definition file_spanish :: xlsx where
  "file_spanish = plain_xlsx ''TCO_2025-01'' ''e4d909c290d0fb1ca068ffaddf22cbd0''
     [(''Dashboard 2025'',
         dashboard_sheet [PStr ''Enero'', PStr ''Febrero''] [PNum 1000, PNum 1100]),
      (''Lease Rate'',
         lease_sheet [[PStr ''101A'', PStr ''Acme'', PNum 100, PNum 200, PNum 2400]])]"

definition file_duplicate_suite :: xlsx where
  "file_duplicate_suite = plain_xlsx ''TCO_2025-01'' ''0cc175b9c0f1b6a831c399e269772661''
     [(''Dashboard 2025'', dashboard_sheet [PStr ''January''] [PNum 1000]),
      (''Lease Rate'',
         lease_sheet [[PStr ''101A'', PStr ''Acme'', PNum 100, PNum 200, PNum 2400],
                      [PStr ''101A'', PStr ''Globex'', PNum 80, PNum 150, PNum 1800]])]"

definition file_negative_rent :: xlsx where
  "file_negative_rent = plain_xlsx ''TCO_2025-01'' ''92eb5ffee6ae2fec3ad71c777531578f''
     [(''Dashboard 2025'', dashboard_sheet [PStr ''January''] [PNum (-5)]),
      (''Lease Rate'',
         lease_sheet [[PStr ''101A'', PStr ''Acme'', PNum (-100), PNum 200, PNum 2400]])]"

definition file_no_lease :: xlsx where
  "file_no_lease = plain_xlsx ''TCO_2025-01'' ''4a8a08f09d37b73795649038408b5f33''
     [(''Dashboard 2025'', dashboard_sheet [PStr ''January''] [PNum 1000])]"

definition file_no_dashboard :: xlsx where
  "file_no_dashboard = plain_xlsx ''TCO_2025-01'' ''8277e0910d750195b448797616e091ad''
     [(''Lease Rate'',
         lease_sheet [[PStr ''101A'', PStr ''Acme'', PNum 100, PNum 200, PNum 2400]])]"

text \<open>The extractors of this file, with an expenses extractor that raises instead.\<close>

definition failing_expenses :: extractors where
  "failing_expenses = this_extractors\<lparr> ex_expenses := (\<lambda>E x a m. Inl KeyError) \<rparr>"

text \<open>
  \<open>file_period\<close> has no dashboard sheet and no period in its name; its only sheet names
  the period in the second cell to the right of a "Reporting Period:" label.
\<close>

definition file_period :: xlsx where
  "file_period = plain_xlsx ''report'' ''c4ca4238a0b923820dcc509a6f75849b''
     [(''Summary'', [[PStr ''Owner'', PStr ''TCO''],
                     [PStr ''Reporting Period:'', PNone, PDate 2025 3 1]])]"

text \<open>
  \<open>file_chartsheet\<close> is \<open>file_good\<close> with a chart sheet named "Chart1" in front of its
  two worksheets; pandas reads its worksheets as before.
\<close>

definition file_chartsheet :: xlsx where
  "file_chartsheet = file_good\<lparr> x_book := (''Chart1'', Chartsheet) # x_book file_good \<rparr>"

text \<open>
  \<open>file_month_column\<close> has the same chart sheet in front of a dashboard worksheet whose
  row 29 is a header with a "Month" column, and a date below it.
\<close>

definition month_sheet :: sheet where
  "month_sheet = replicate 28 [] @ [[PStr ''Month'', PStr ''Rent''], [PDate 2025 3 1, PNum 10]]"

definition file_month_column :: xlsx where
  "file_month_column =
     \<lparr> x_stem = ''report'', x_md5 = ''eccbc87e4b5ce2fe28308fd9f2a7baf3'',
       x_book = [(''Chart1'', Chartsheet), (''Dashboard'', Worksheet month_sheet)],
       x_frame = (\<lambda>name h. if name = ''Dashboard'' then read_plain month_sheet h
                             else Inl ReadError) \<rparr>"

section \<open>Properties of the text primitives\<close>

lemma contains_sublist: "contains p s \<longleftrightarrow> sublist p s"
  by (induction s) (auto simp: sublist_Cons_right)

lemma contains_Nil [simp]: "contains [] s"
  by (simp add: contains_sublist)

lemma first_match_None:
  "first_match q ns = None \<longleftrightarrow> (\<forall>n\<in>set ns. \<not> contains q (lower n))"
  by (induction ns) auto

lemma first_match_SomeD:
  "first_match q ns = Some s \<Longrightarrow> \<exists>n\<in>set ns. contains q (lower n)"
  by (induction ns) (auto split: if_splits)

lemma first_match_Some:
  "first_match q ns = Some s \<Longrightarrow>
     \<exists>j<length ns. s = ns ! j \<and> contains q (lower (ns ! j)) \<and>
        (\<forall>j'<j. \<not> contains q (lower (ns ! j')))"
proof (induction ns)
  case Nil
  then show ?case by simp
next
  case (Cons n ns)
  show ?case
  proof (cases "contains q (lower n)")
    case True
    with Cons.prems have "s = n" by simp
    with True show ?thesis by (intro exI[of _ 0]) simp
  next
    case False
    with Cons.prems have "first_match q ns = Some s" by simp
    from Cons.IH[OF this] obtain j where j: "j < length ns" "s = ns ! j"
      "contains q (lower (ns ! j))" "\<forall>j'<j. \<not> contains q (lower (ns ! j'))"
      by blast
    have "\<forall>j'<Suc j. \<not> contains q (lower ((n # ns) ! j'))"
      using False j(4) by (auto simp: less_Suc_eq_0_disj)
    with j show ?thesis by (intro exI[of _ "Suc j"]) simp
  qed
qed

lemma pick_sheet_None:
  "pick_sheet ns ps = None \<longleftrightarrow>
     (\<forall>p\<in>set ps. \<forall>n\<in>set ns. \<not> contains (lower p) (lower n))"
  by (induction ps) (auto simp: first_match_None split: option.splits dest: first_match_SomeD)

lemma pick_sheet_Some:
  "pick_sheet ns ps = Some s \<Longrightarrow>
     \<exists>i<length ps. \<exists>j<length ns. s = ns ! j \<and>
        contains (lower (ps ! i)) (lower (ns ! j)) \<and>
        (\<forall>i'<i. \<forall>n\<in>set ns. \<not> contains (lower (ps ! i')) (lower n)) \<and>
        (\<forall>j'<j. \<not> contains (lower (ps ! i)) (lower (ns ! j')))"
proof (induction ps)
  case Nil
  then show ?case by simp
next
  case (Cons p ps)
  show ?case
  proof (cases "first_match (lower p) ns")
    case (Some t)
    with Cons.prems have "t = s" by simp
    with Some first_match_Some[of "lower p" ns s]
    obtain j where "j < length ns" "s = ns ! j" "contains (lower p) (lower (ns ! j))"
      "\<forall>j'<j. \<not> contains (lower p) (lower (ns ! j'))" by blast
    then show ?thesis by (intro exI[of _ 0]) auto
  next
    case None
    with Cons.prems have "pick_sheet ns ps = Some s" by simp
    from Cons.IH[OF this] obtain i j where ij: "i < length ps" "j < length ns" "s = ns ! j"
      "contains (lower (ps ! i)) (lower (ns ! j))"
      "\<forall>i'<i. \<forall>n\<in>set ns. \<not> contains (lower (ps ! i')) (lower n)"
      "\<forall>j'<j. \<not> contains (lower (ps ! i)) (lower (ns ! j'))"
      by blast
    have "\<forall>i'<Suc i. \<forall>n\<in>set ns. \<not> contains (lower ((p # ps) ! i')) (lower n)"
      using None ij(5) by (auto simp: less_Suc_eq_0_disj first_match_None)
    with ij show ?thesis
      by (intro exI[of _ "Suc i"]) auto
  qed
qed

lemma any_in_PStr: "any_in ps (PStr s) = Inr (\<exists>p\<in>set ps. contains p s)"
  by (induction ps) (auto split: sum.splits bool.splits)

lemma lower_append: "lower (a @ b) = lower a @ lower b"
  by (simp add: lower_def)

lemma lower_char_spaces:
  "lower_char (CHR '' '') = CHR '' ''" "lower_char (CHR 0x09) = CHR 0x09"
  "lower_char (CHR 0x0A) = CHR 0x0A" "lower_char (CHR 0x0B) = CHR 0x0B"
  "lower_char (CHR 0x0C) = CHR 0x0C" "lower_char (CHR 0x0D) = CHR 0x0D"
  "lower_char (CHR 0x1C) = CHR 0x1C" "lower_char (CHR 0x1D) = CHR 0x1D"
  "lower_char (CHR 0x1E) = CHR 0x1E" "lower_char (CHR 0x1F) = CHR 0x1F"
  by (simp_all add: lower_char_def)

lemma lower_char_space: "is_space c \<Longrightarrow> lower_char c = c"
  unfolding is_space_def using lower_char_spaces by fastforce

lemma strip_blank: "\<forall>c\<in>set s. is_space c \<Longrightarrow> strip (lower s) = []"
proof -
  assume a: "\<forall>c\<in>set s. is_space c"
  then have "lower s = s"
    unfolding lower_def by (intro map_idI) (simp add: lower_char_space)
  moreover from a have "dropWhile is_space s = []" by (induction s) auto
  ultimately show ?thesis
    by (simp only: strip_def rev.simps dropWhile.simps)
qed

lemma strip_keeps_suffix:
  assumes "p \<noteq> []" "\<forall>c\<in>set p. \<not> is_space c"
  shows "\<exists>v. strip (u @ p) = v @ p"
proof -
  have "\<exists>v. dropWhile is_space (u @ p) = v @ p"
  proof (cases "\<forall>c\<in>set u. is_space c")
    case True
    then have "dropWhile is_space (u @ p) = dropWhile is_space p"
      by simp
    also have "\<dots> = p" using assms by (cases p) auto
    finally show ?thesis by simp
  next
    case False
    then obtain x where "x \<in> set u" "\<not> is_space x" by blast
    then have "dropWhile is_space (u @ p) = dropWhile is_space u @ p"
      by simp
    then show ?thesis by blast
  qed
  then obtain v where v: "dropWhile is_space (u @ p) = v @ p" by blast
  have "\<not> is_space (last p)" using assms by simp
  then have "dropWhile is_space (rev (v @ p)) = rev (v @ p)"
    using assms(1) by (cases p rule: rev_cases) auto
  with v show ?thesis by (simp add: strip_def)
qed

lemma is_vacant_text:
  "s \<noteq> [] \<Longrightarrow> is_vacant E (PStr s) ps = Inr (\<exists>p\<in>set ps. sublist p (strip (lower s)))"
  by (simp add: is_vacant_def any_in_PStr contains_sublist)

lemma is_own_use_eq:
  "is_own_use E t s ps =
     Inr (\<exists>p\<in>set ps. sublist p (strip (lower (py_str E t @ '' '' @ py_str E s))))"
  by (simp add: is_own_use_def any_in_PStr contains_sublist)

section \<open>Claims about the sheet locator and the classifiers\<close>

text \<open>
  C6. The sheet locator returns "no sheet" exactly when no pattern occurs, compared
  case-insensitively (the pattern is lowercased like the name; a lowercase pattern such
  as the configured ones is compared as it is), in any lowercased sheet name. When it
  returns a sheet, that sheet is the earliest sheet in workbook order that contains the
  first pattern, in priority order, that occurs in any sheet name: an earlier pattern wins
  over any sheet matching only a later pattern, and within one pattern the earliest sheet
  wins. \<open>sublist\<close> is the library's notion of a contiguous substring.
\<close>

theorem pick_sheet_priority:
  "(pick_sheet names patterns = None \<longleftrightarrow>
      (\<forall>p\<in>set patterns. \<forall>n\<in>set names. \<not> sublist (lower p) (lower n))) \<and>
   (\<forall>s. pick_sheet names patterns = Some s \<longrightarrow>
      (\<exists>i<length patterns. \<exists>j<length names. s = names ! j \<and>
         sublist (lower (patterns ! i)) (lower (names ! j)) \<and>
         (\<forall>i'<i. \<forall>n\<in>set names. \<not> sublist (lower (patterns ! i')) (lower n)) \<and>
         (\<forall>j'<j. \<not> sublist (lower (patterns ! i)) (lower (names ! j')))))"
  using pick_sheet_None[of names patterns] pick_sheet_Some[of names patterns]
  by (simp add: contains_sublist)

theorem pick_sheet_priority_witness:
  "pick_sheet [''Lease Rate'', ''Budget 2025'', ''Dashboard''] DASHBOARD_SHEET_PATTERNS
     = Some ''Dashboard'' \<and>
   (\<exists>i<length DASHBOARD_SHEET_PATTERNS. \<exists>j<length [''Lease Rate'', ''Budget 2025'', ''Dashboard''].
      ''Dashboard'' = [''Lease Rate'', ''Budget 2025'', ''Dashboard''] ! j \<and>
      sublist (lower (DASHBOARD_SHEET_PATTERNS ! i))
        (lower ([''Lease Rate'', ''Budget 2025'', ''Dashboard''] ! j)) \<and>
      (\<forall>i'<i. \<forall>n\<in>set [''Lease Rate'', ''Budget 2025'', ''Dashboard''].
         \<not> sublist (lower (DASHBOARD_SHEET_PATTERNS ! i')) (lower n)) \<and>
      (\<forall>j'<j. \<not> sublist (lower (DASHBOARD_SHEET_PATTERNS ! i))
         (lower ([''Lease Rate'', ''Budget 2025'', ''Dashboard''] ! j'))))"
proof -
  have h: "pick_sheet [''Lease Rate'', ''Budget 2025'', ''Dashboard''] DASHBOARD_SHEET_PATTERNS
    = Some ''Dashboard''"
    by (simp add: DASHBOARD_SHEET_PATTERNS_def lower_def lower_char_def)
  from pick_sheet_priority[of "[''Lease Rate'', ''Budget 2025'', ''Dashboard'']"
      DASHBOARD_SHEET_PATTERNS] h
  show ?thesis by blast
qed

text \<open>
  C8. For suite id "101B" and an empty tenant text \<open>is_own_use\<close> returns true with the
  configured owner-use phrases; it does so whatever the tenant value is (so whether or not
  a vacancy phrase occurs in it), because the hardcoded phrase "101b" always survives the
  lowercasing and trimming of the combined text. The vacancy phrases are no input of
  \<open>is_own_use\<close>.
\<close>

theorem is_own_use_101B:
  "is_own_use E (PStr '''') (PStr ''101B'') OWN_USE_PATTERNS = Inr True \<and>
   (\<forall>tenant. is_own_use E tenant (PStr ''101B'') OWN_USE_PATTERNS = Inr True)"
proof -
  have "is_own_use E tenant (PStr ''101B'') OWN_USE_PATTERNS = Inr True" for tenant
  proof -
    have l: "lower (py_str E tenant @ '' '' @ ''101B'') = (lower (py_str E tenant) @ '' '') @ ''101b''"
      by (simp add: lower_def lower_char_def)
    have "\<exists>v. strip ((lower (py_str E tenant) @ '' '') @ ''101b'') = v @ ''101b''"
      by (rule strip_keeps_suffix) (simp_all add: is_space_def)
    then obtain v where "strip (lower (py_str E tenant @ '' '' @ ''101B'')) = v @ ''101b''"
      using l by auto
    then have "sublist ''101b'' (strip (lower (py_str E tenant @ '' '' @ ''101B'')))"
      by (metis sublist_appendI append_Nil2)
    then show ?thesis
      by (auto simp: is_own_use_eq OWN_USE_PATTERNS_def)
  qed
  then show ?thesis by blast
qed

text \<open>
  C9. \<open>is_vacant\<close> and \<open>is_own_use\<close> return a boolean and raise nothing, for every
  argument value: text (the empty text included), \<^verbatim>\<open>None\<close>, NaN, and numbers and dates
  as well. The string methods of the model fail on a value that is not text; the
  theorem says no such failure is reachable.
\<close>

theorem classifiers_total:
  "(\<exists>b. is_vacant E tenant vacancy_patterns = Inr b) \<and>
   (\<exists>b. is_own_use E tenant suite own_use_patterns = Inr b)"
  by (auto simp: is_vacant_def is_own_use_def any_in_PStr)

text \<open>
  C10. \<open>is_vacant\<close> is true for a missing tenant (\<^verbatim>\<open>None\<close> or NaN) and for the empty
  text. A non-empty text is vacant exactly when some vacancy phrase is a substring of the
  lowercased, trimmed text; a text of white space only is not empty, its trimmed form is
  empty, so it is vacant only if the empty phrase is configured, and with the configured
  phrases it is not vacant.
\<close>

theorem is_vacant_whitespace:
  "is_vacant E PNone ps = Inr True \<and> is_vacant E PNaN ps = Inr True \<and>
   is_vacant E (PStr '''') ps = Inr True \<and>
   (\<forall>s. s \<noteq> [] \<longrightarrow>
      is_vacant E (PStr s) ps = Inr (\<exists>p\<in>set ps. sublist p (strip (lower s)))) \<and>
   (\<forall>s. s \<noteq> [] \<and> (\<forall>c\<in>set s. is_space c) \<longrightarrow>
      is_vacant E (PStr s) ps = Inr ([] \<in> set ps) \<and>
      is_vacant E (PStr s) VACANCY_PATTERNS = Inr False)"
proof -
  have a: "is_vacant E PNone ps = Inr True" "is_vacant E PNaN ps = Inr True"
    "is_vacant E (PStr '''') ps = Inr True"
    by (simp_all add: is_vacant_def)
  have b: "is_vacant E (PStr s) qs = Inr ([] \<in> set qs)"
    if "s \<noteq> []" "\<forall>c\<in>set s. is_space c" for s qs
    using that by (auto simp: is_vacant_text strip_blank)
  have c: "[] \<notin> set VACANCY_PATTERNS" by (simp add: VACANCY_PATTERNS_def)
  show ?thesis using a b c by (simp add: is_vacant_text)
qed

theorem is_vacant_whitespace_witness:
  "is_vacant example_env (PStr [CHR '' '', CHR 0x09]) VACANCY_PATTERNS = Inr False \<and>
   is_vacant example_env (PStr '' Vacante '') VACANCY_PATTERNS =
     Inr (\<exists>p\<in>set VACANCY_PATTERNS. sublist p (strip (lower '' Vacante '')))"
proof -
  have h: "[CHR '' '', CHR 0x09] \<noteq> [] \<and> (\<forall>c\<in>set [CHR '' '', CHR 0x09]. is_space c)"
    by (simp add: is_space_def)
  have k: "'' Vacante '' \<noteq> []" by simp
  from is_vacant_whitespace[of example_env VACANCY_PATTERNS] h k
  show ?thesis by blast
qed

section \<open>Claims about the lease snapshot\<close>


lemma collect_Inr_set: "collect xs = Inr ys \<Longrightarrow> y \<in> set ys \<Longrightarrow> Inr y \<in> set xs"
  by (induction xs arbitrary: ys rule: collect.induct) (auto split: sum.splits)

lemma lease_row_psf:
  "lease_row E df a m ir = Inr r \<Longrightarrow> l_rent_psf_yr r = rent_psf_yr (l_rent_annual r) (l_sqft r)"
  by (auto simp: lease_row_def Let_def split: sum.splits)

lemma ingest_lease_row:
  assumes "ingest_lease_rate_snapshot E x a m = Inr rows" "r \<in> set rows"
  shows "\<exists>df ir. lease_row E df a m ir = Inr r"
proof -
  from assms(1) obtain df where "lease_rows E df a m = Inr rows"
    by (auto simp: ingest_lease_rate_snapshot_def split: option.splits if_splits sum.splits)
  then obtain kept where "collect (map (lease_row E df a m) kept) = Inr rows"
    by (auto simp: lease_rows_def Let_def)
  from collect_Inr_set[OF this assms(2)] obtain ir where "Inr r = lease_row E df a m ir"
    by auto
  then have "lease_row E df a m ir = Inr r" by simp
  then show ?thesis by blast
qed

text \<open>
  C7. Every row the lease-snapshot extractor produces has its \<open>rent_psf_yr\<close> derived
  from its own area and annual rent: with a positive area it is the annual rent divided
  by the area (a missing annual rent gives a missing result, as NaN does), and with area 0
  it is 0; it is 0 as well when the area is missing or negative. Floats are idealised as
  reals, so the equality is exact.
\<close>

theorem lease_rent_psf_yr:
  "ingest_lease_rate_snapshot E x as_of_month file_md5 = Inr rows \<Longrightarrow> r \<in> set rows \<Longrightarrow>
     (\<forall>s. l_sqft r = Some s \<and> 0 < s \<longrightarrow>
          l_rent_psf_yr r = map_option (\<lambda>a. a / s) (l_rent_annual r)) \<and>
     (l_sqft r = Some 0 \<longrightarrow> l_rent_psf_yr r = Some 0) \<and>
     ((l_sqft r = None \<or> (\<exists>s<0. l_sqft r = Some s)) \<longrightarrow> l_rent_psf_yr r = Some 0)"
proof -
  assume "ingest_lease_rate_snapshot E x as_of_month file_md5 = Inr rows" "r \<in> set rows"
  from ingest_lease_row[OF this] obtain df ir where "lease_row E df as_of_month file_md5 ir = Inr r"
    by blast
  from lease_row_psf[OF this] show ?thesis
    by (auto simp: rent_psf_yr_def)
qed

theorem lease_rent_psf_yr_witness:
  "\<exists>rows r. ingest_lease_rate_snapshot example_env file_good ''2025-01'' (x_md5 file_good) = Inr rows \<and>
     r \<in> set rows \<and> l_sqft r = Some 100 \<and> l_rent_annual r = Some 2400 \<and> l_rent_psf_yr r = Some 24"
proof -
  have "case ingest_lease_rate_snapshot example_env file_good ''2025-01'' (x_md5 file_good) of
          Inr (r # rs) \<Rightarrow> l_sqft r = Some 100 \<and> l_rent_annual r = Some 2400
        | _ \<Rightarrow> False"
    by code_simp
  then obtain r rs where h:
    "ingest_lease_rate_snapshot example_env file_good ''2025-01'' (x_md5 file_good) = Inr (r # rs)"
    "l_sqft r = Some 100" "l_rent_annual r = Some 2400"
    by (auto split: sum.splits list.splits)
  from lease_rent_psf_yr[OF h(1), of r] h(2,3) have "l_rent_psf_yr r = Some 24" by simp
  with h show ?thesis by (intro exI[of _ "r # rs"] exI[of _ r]) simp
qed

text \<open>
  C3. The suite ids of a stored lease partition need not be distinct: the extractor keeps
  every row with a non-blank suite id and the schema has no uniqueness check. The file
  that lists suite 101A twice is ingested with success, both rows are stored under the
  same period, and the stored rows pass the lease schema.
\<close>

theorem duplicate_suite_ids_stored:
  "case main example_env file_duplicate_suite empty_state of
     (out, st) \<Rightarrow>
       out = Completed 3 \<and>
       map l_suite_id (stored_lease_rows st ''2025-01'') = [''101A'', ''101A''] \<and>
       schema_errors schema_lease_rate
         (map (lease_fields example_env) (stored_lease_rows st ''2025-01'')) = []"
  by code_simp

section \<open>Claims about the schemas and the stored rows\<close>

lemma schema_errors_Nil:
  "schema_errors sch df = [] \<longleftrightarrow>
     (\<forall>nc\<in>set sch. \<forall>ir\<in>set (enumerate 0 df). cell_failures (fst nc) (snd nc) ir = [])"
  by (auto simp: schema_errors_def)

lemma in_enumerate: "r \<in> set xs \<Longrightarrow> \<exists>i. (i, r) \<in> set (enumerate 0 xs)"
proof -
  assume "r \<in> set xs"
  then obtain k where k: "k < length xs" "xs ! k = r" by (auto simp: in_set_conv_nth)
  then have "enumerate 0 xs ! k = (k, r)" by (simp add: nth_enumerate_eq)
  moreover have "k < length (enumerate 0 xs)" using k by simp
  ultimately show ?thesis by (metis nth_mem)
qed

lemma ge0_cell:
  "cell_failures name (Column PaFloat [Ge 0] True) (i, row) = [] \<Longrightarrow>
   map_of row name = Some (float_field v) \<Longrightarrow> null_or_nonneg v"
  by (cases v) (auto simp: float_field_def null_or_nonneg_def split: if_splits)

lemma dashboard_valid_row:
  assumes "schema_errors schema_dashboard_monthly (map dashboard_fields df) = []" "r \<in> set df"
  shows "null_or_nonneg (d_rent_base r) \<and> null_or_nonneg (d_collected r) \<and>
         null_or_nonneg (d_leased_sqft r) \<and> null_or_nonneg (d_price_per_sf_yr r)"
proof -
  from assms(2) obtain i where i: "(i, dashboard_fields r) \<in> set (enumerate 0 (map dashboard_fields df))"
    using in_enumerate[of "dashboard_fields r" "map dashboard_fields df"] by auto
  have c: "cell_failures name col (i, dashboard_fields r) = []"
    if "(name, col) \<in> set schema_dashboard_monthly" for name col
    using assms(1) i that unfolding schema_errors_Nil by fastforce
  have "null_or_nonneg (d_rent_base r)"
    by (rule ge0_cell[OF c[of "''rent_base''"]]) (simp_all add: schema_dashboard_monthly_def dashboard_fields_def)
  moreover have "null_or_nonneg (d_collected r)"
    by (rule ge0_cell[OF c[of "''collected''"]]) (simp_all add: schema_dashboard_monthly_def dashboard_fields_def)
  moreover have "null_or_nonneg (d_leased_sqft r)"
    by (rule ge0_cell[OF c[of "''leased_sqft''"]]) (simp_all add: schema_dashboard_monthly_def dashboard_fields_def)
  moreover have "null_or_nonneg (d_price_per_sf_yr r)"
    by (rule ge0_cell[OF c[of "''price_per_sf_yr''"]]) (simp_all add: schema_dashboard_monthly_def dashboard_fields_def)
  ultimately show ?thesis by simp
qed

lemma lease_valid_row:
  assumes "schema_errors schema_lease_rate (map (lease_fields E) lf) = []" "r \<in> set lf"
  shows "null_or_nonneg (l_sqft r) \<and> null_or_nonneg (l_rent_monthly r) \<and>
         null_or_nonneg (l_rent_annual r) \<and> null_or_nonneg (l_rent_psf_yr r)"
proof -
  from assms(2) obtain i where i: "(i, lease_fields E r) \<in> set (enumerate 0 (map (lease_fields E) lf))"
    using in_enumerate[of "lease_fields E r" "map (lease_fields E) lf"] by auto
  have c: "cell_failures name col (i, lease_fields E r) = []"
    if "(name, col) \<in> set schema_lease_rate" for name col
    using assms(1) i that unfolding schema_errors_Nil by fastforce
  have "null_or_nonneg (l_sqft r)"
    by (rule ge0_cell[OF c[of "''sqft''"]]) (simp_all add: schema_lease_rate_def lease_fields_def)
  moreover have "null_or_nonneg (l_rent_monthly r)"
    by (rule ge0_cell[OF c[of "''rent_monthly''"]]) (simp_all add: schema_lease_rate_def lease_fields_def)
  moreover have "null_or_nonneg (l_rent_annual r)"
    by (rule ge0_cell[OF c[of "''rent_annual''"]]) (simp_all add: schema_lease_rate_def lease_fields_def)
  moreover have "null_or_nonneg (l_rent_psf_yr r)"
    by (rule ge0_cell[OF c[of "''rent_psf_yr''"]]) (simp_all add: schema_lease_rate_def lease_fields_def)
  ultimately show ?thesis by simp
qed

lemma enumerate_map: "enumerate n (map f xs) = map (apsnd f) (enumerate n xs)"
  by (induction xs arbitrary: n) auto

lemma cell_failures_cong:
  "map_of row name = map_of row' name \<Longrightarrow>
     cell_failures name col (i, row) = cell_failures name col (i, row')"
  by (cases col) simp

lemma uncollected_other:
  "name \<noteq> ''uncollected'' \<Longrightarrow>
     map_of (dashboard_fields (r\<lparr>d_uncollected := u\<rparr>)) name = map_of (dashboard_fields r) name"
  by (simp add: dashboard_fields_def)

lemma uncollected_cell:
  "cell_failures ''uncollected'' (Column PaFloat [] True) (i, dashboard_fields r) = []"
  by (simp add: dashboard_fields_def float_field_def split: option.splits)

lemma uncollected_column:
  "(''uncollected'', col) \<in> set schema_dashboard_monthly \<Longrightarrow> col = Column PaFloat [] True"
  by (simp add: schema_dashboard_monthly_def)

lemma uncollected_free:
  assumes "schema_errors schema_dashboard_monthly (map dashboard_fields df) = []"
  shows "schema_errors schema_dashboard_monthly
           (map (\<lambda>r. dashboard_fields (r\<lparr>d_uncollected := u r\<rparr>)) df) = []"
proof -
  have "cell_failures name col (i, dashboard_fields (r\<lparr>d_uncollected := u r\<rparr>)) = []"
    if nc: "(name, col) \<in> set schema_dashboard_monthly" and ir: "(i, r) \<in> set (enumerate 0 df)"
    for name col i r
  proof (cases "name = ''uncollected''")
    case True
    with nc uncollected_column have col: "col = Column PaFloat [] True" by blast
    show ?thesis unfolding True col by (rule uncollected_cell)
  next
    case False
    from ir have "(i, dashboard_fields r) \<in> set (enumerate 0 (map dashboard_fields df))"
      by (force simp: enumerate_map)
    with assms nc have "cell_failures name col (i, dashboard_fields r) = []"
      unfolding schema_errors_Nil by fastforce
    with False show ?thesis
      using cell_failures_cong[OF uncollected_other[OF False, where r=r and u="u r"], where col=col and i=i] by simp
  qed
  then show ?thesis
    unfolding schema_errors_Nil by (auto simp: enumerate_map)
qed

text \<open>
  C4, as the claim states it, fails: the extractors store what the sheet holds and the
  schemas are checked in a later pass that removes nothing. The file with a base rent of
  -5 is ingested and its dashboard row is stored with \<open>rent_base = -5\<close>.
\<close>

theorem negative_rent_stored:
  "map d_rent_base
     (stored_dashboard_rows (snd (main example_env file_negative_rent empty_state)) ''2025-01'')
     = [Some (- 5)] \<and>
   \<not> null_or_nonneg (Some (- 5))"
  by code_simp

text \<open>
  C4, amended. In every dashboard frame and every lease frame that passes its schema,
  each currency or area field (\<open>rent_base\<close>, \<open>collected\<close>, \<open>leased_sqft\<close>,
  \<open>price_per_sf_yr\<close>; \<open>sqft\<close>, \<open>rent_monthly\<close>, \<open>rent_annual\<close>, \<open>rent_psf_yr\<close>) is
  null or at least 0. \<open>uncollected\<close> is not constrained: a valid dashboard frame stays
  valid whatever its \<open>uncollected\<close> values are changed to.
\<close>

theorem validated_rows_nonneg:
  "(schema_errors schema_dashboard_monthly (map dashboard_fields df) = [] \<longrightarrow>
      (\<forall>r\<in>set df. null_or_nonneg (d_rent_base r) \<and> null_or_nonneg (d_collected r) \<and>
                   null_or_nonneg (d_leased_sqft r) \<and> null_or_nonneg (d_price_per_sf_yr r)) \<and>
      (\<forall>u. schema_errors schema_dashboard_monthly
             (map (\<lambda>r. dashboard_fields (r\<lparr>d_uncollected := u r\<rparr>)) df) = [])) \<and>
   (schema_errors schema_lease_rate (map (lease_fields E) lf) = [] \<longrightarrow>
      (\<forall>r\<in>set lf. null_or_nonneg (l_sqft r) \<and> null_or_nonneg (l_rent_monthly r) \<and>
                   null_or_nonneg (l_rent_annual r) \<and> null_or_nonneg (l_rent_psf_yr r)))"
  using dashboard_valid_row[of df] lease_valid_row[of E lf] uncollected_free[of df]
  by blast

theorem validated_rows_nonneg_witness:
  "schema_errors schema_dashboard_monthly
     (map dashboard_fields
        (projr (ingest_dashboard_monthly example_env file_good ''2025-01'' (x_md5 file_good)))) = [] \<and>
   list_all (\<lambda>r. null_or_nonneg (d_rent_base r))
     (projr (ingest_dashboard_monthly example_env file_good ''2025-01'' (x_md5 file_good))) \<and>
   schema_errors schema_dashboard_monthly
     (map (\<lambda>r. dashboard_fields (r\<lparr>d_uncollected := Some (- 50)\<rparr>))
        (projr (ingest_dashboard_monthly example_env file_good ''2025-01'' (x_md5 file_good)))) = [] \<and>
   schema_errors schema_lease_rate
     (map (lease_fields example_env)
        (projr (ingest_lease_rate_snapshot example_env file_good ''2025-01'' (x_md5 file_good)))) = [] \<and>
   list_all (\<lambda>r. null_or_nonneg (l_rent_psf_yr r))
     (projr (ingest_lease_rate_snapshot example_env file_good ''2025-01'' (x_md5 file_good)))"
proof -
  have d: "schema_errors schema_dashboard_monthly
     (map dashboard_fields
        (projr (ingest_dashboard_monthly example_env file_good ''2025-01'' (x_md5 file_good)))) = []"
    by code_simp
  have l: "schema_errors schema_lease_rate
     (map (lease_fields example_env)
        (projr (ingest_lease_rate_snapshot example_env file_good ''2025-01'' (x_md5 file_good)))) = []"
    by code_simp
  from validated_rows_nonneg[of
      "projr (ingest_dashboard_monthly example_env file_good ''2025-01'' (x_md5 file_good))"
      example_env
      "projr (ingest_lease_rate_snapshot example_env file_good ''2025-01'' (x_md5 file_good))"] d l
  show ?thesis by (simp add: list_all_iff)
qed

section \<open>Claims about the ingestion run\<close>

lemma bronze_save:
  "bronze (save_bronze_partition df t p st) t' p' =
     (if t' = t \<and> p' = p then AList.update (output_file t p) df (bronze st t p)
      else bronze st t' p')"
  by (simp add: save_bronze_partition_def)

lemma log_save [simp]: "ingestion_log (save_bronze_partition df t p st) = ingestion_log st"
  by (simp add: save_bronze_partition_def)

lemma log_log_ingestion:
  "ingestion_log (log_ingestion E m p n s st) =
     ingestion_log st @
       [\<lparr> g_file_md5 = m, g_as_of_month = p, g_rows_ingested = n,
          g_started_at = now_iso E, g_finished_at = now_iso E, g_status = s \<rparr>]"
  by (simp add: log_ingestion_def)

lemma bronze_log_ingestion [simp]: "bronze (log_ingestion E m p n s st) = bronze st"
  by (simp add: log_ingestion_def)

lemma stored_after_save:
  "map_of (bronze (save_bronze_partition df t p st) t p) (output_file t p) = Some df"
  by (simp add: bronze_save update_conv')

lemma expenses_step_other:
  "t \<noteq> Expenses \<Longrightarrow> bronze (snd (expenses_step X E x p m ts)) t = bronze (snd ts) t"
  by (auto simp: expenses_step_def save_bronze_partition_def split: sum.splits option.splits)

lemma expenses_step_log [simp]:
  "ingestion_log (snd (expenses_step X E x p m ts)) = ingestion_log (snd ts)"
  by (auto simp: expenses_step_def split: sum.splits option.splits)

lemma expenses_step_Inl:
  "ex_expenses X E x p m = Inl e \<Longrightarrow> expenses_step X E x p m ts = ts"
  by (simp add: expenses_step_def)

text \<open>
  C2. Take a run that detects its period and is not a duplicate, with any three
  extractors. If the dashboard extractor raises, the run ends with that exception, nothing
  is written to the store and one "failed" entry is appended to the log. If the dashboard
  extractor succeeds and the lease extractor raises, the run ends with that exception and
  one "failed" entry is appended; the dashboard file written before stays and no lease
  file is written. If both succeed, the run completes, both frames are stored under the
  period and one "success" entry is appended, whatever the expenses extractor does; if it
  raises, no expenses file is written and the row count is that of the two frames.
\<close>

theorem extractor_failures:
  assumes "detect_as_of_month E x (pick_sheet (sheetnames (x_book x)) DASHBOARD_SHEET_PATTERNS) = Inr p"
    and "\<not> check_already_ingested (x_md5 x) p (bronze st Dashboard)"
  shows
  "(\<forall>e. ex_dashboard X E x p (x_md5 x) = Inl e \<longrightarrow>
      fst (main_with X E x st) = Raised e \<and>
      bronze (snd (main_with X E x st)) = bronze st \<and>
      ingestion_log (snd (main_with X E x st)) =
        ingestion_log st @ [\<lparr> g_file_md5 = x_md5 x, g_as_of_month = p, g_rows_ingested = 0,
              g_started_at = now_iso E, g_finished_at = now_iso E, g_status = ''failed'' \<rparr>]) \<and>
   (\<forall>d e. ex_dashboard X E x p (x_md5 x) = Inr d \<and> ex_lease X E x p (x_md5 x) = Inl e \<longrightarrow>
      fst (main_with X E x st) = Raised e \<and>
      (\<exists>n. ingestion_log (snd (main_with X E x st)) =
             ingestion_log st @ [\<lparr> g_file_md5 = x_md5 x, g_as_of_month = p, g_rows_ingested = n,
              g_started_at = now_iso E, g_finished_at = now_iso E, g_status = ''failed'' \<rparr>]) \<and>
      map_of (bronze (snd (main_with X E x st)) Dashboard p) (output_file Dashboard p) =
        Some (DashboardPq d) \<and>
      bronze (snd (main_with X E x st)) LeaseRate = bronze st LeaseRate) \<and>
   (\<forall>d l. ex_dashboard X E x p (x_md5 x) = Inr d \<and> ex_lease X E x p (x_md5 x) = Inr l \<longrightarrow>
      (\<exists>n. fst (main_with X E x st) = Completed n \<and>
           ingestion_log (snd (main_with X E x st)) =
             ingestion_log st @ [\<lparr> g_file_md5 = x_md5 x, g_as_of_month = p, g_rows_ingested = n,
              g_started_at = now_iso E, g_finished_at = now_iso E, g_status = ''success'' \<rparr>] \<and>
           (\<forall>e. ex_expenses X E x p (x_md5 x) = Inl e \<longrightarrow>
                 n = length d + length l \<and>
                 bronze (snd (main_with X E x st)) Expenses = bronze st Expenses)) \<and>
      map_of (bronze (snd (main_with X E x st)) Dashboard p) (output_file Dashboard p) =
        Some (DashboardPq d) \<and>
      map_of (bronze (snd (main_with X E x st)) LeaseRate p) (output_file LeaseRate p) =
        Some (LeasePq l))"
proof (intro conjI allI impI)
  fix e assume "ex_dashboard X E x p (x_md5 x) = Inl e"
  with assms show "fst (main_with X E x st) = Raised e"
    "bronze (snd (main_with X E x st)) = bronze st"
    "ingestion_log (snd (main_with X E x st)) =
       ingestion_log st @ [\<lparr> g_file_md5 = x_md5 x, g_as_of_month = p, g_rows_ingested = 0,
              g_started_at = now_iso E, g_finished_at = now_iso E, g_status = ''failed'' \<rparr>]"
    by (simp_all add: main_with_def log_log_ingestion)
next
  fix d e assume a: "ex_dashboard X E x p (x_md5 x) = Inr d \<and> ex_lease X E x p (x_md5 x) = Inl e"
  let ?ts = "expenses_step X E x p (x_md5 x)
               (length d, save_bronze_partition (DashboardPq d) Dashboard p st)"
  from assms a have m: "main_with X E x st =
      (Raised e, log_ingestion E (x_md5 x) p (fst ?ts) ''failed'' (snd ?ts))"
    by (simp add: main_with_def Let_def)
  show "fst (main_with X E x st) = Raised e" by (simp add: m)
  show "\<exists>n. ingestion_log (snd (main_with X E x st)) =
             ingestion_log st @ [\<lparr> g_file_md5 = x_md5 x, g_as_of_month = p, g_rows_ingested = n,
              g_started_at = now_iso E, g_finished_at = now_iso E, g_status = ''failed'' \<rparr>]"
    by (rule exI[of _ "fst ?ts"]) (simp add: m log_log_ingestion)
  show "map_of (bronze (snd (main_with X E x st)) Dashboard p) (output_file Dashboard p) =
        Some (DashboardPq d)"
    by (simp add: m expenses_step_other stored_after_save)
  show "bronze (snd (main_with X E x st)) LeaseRate = bronze st LeaseRate"
    by (simp add: m expenses_step_other) (simp add: save_bronze_partition_def)
next
  fix d l assume a: "ex_dashboard X E x p (x_md5 x) = Inr d \<and> ex_lease X E x p (x_md5 x) = Inr l"
  let ?ts = "expenses_step X E x p (x_md5 x)
               (length d, save_bronze_partition (DashboardPq d) Dashboard p st)"
  from assms a have m: "main_with X E x st =
      (Completed (fst ?ts + length l),
       log_ingestion E (x_md5 x) p (fst ?ts + length l) ''success''
         (save_bronze_partition (LeasePq l) LeaseRate p (snd ?ts)))"
    by (simp add: main_with_def Let_def)
  show "\<exists>n. fst (main_with X E x st) = Completed n \<and>
           ingestion_log (snd (main_with X E x st)) =
             ingestion_log st @ [\<lparr> g_file_md5 = x_md5 x, g_as_of_month = p, g_rows_ingested = n,
              g_started_at = now_iso E, g_finished_at = now_iso E, g_status = ''success'' \<rparr>] \<and>
           (\<forall>e. ex_expenses X E x p (x_md5 x) = Inl e \<longrightarrow>
                 n = length d + length l \<and>
                 bronze (snd (main_with X E x st)) Expenses = bronze st Expenses)"
    by (rule exI[of _ "fst ?ts + length l"])
       (auto simp: m log_log_ingestion expenses_step_Inl bronze_save)
  show "map_of (bronze (snd (main_with X E x st)) Dashboard p) (output_file Dashboard p) =
        Some (DashboardPq d)"
    by (simp add: m bronze_save expenses_step_other update_conv')
  show "map_of (bronze (snd (main_with X E x st)) LeaseRate p) (output_file LeaseRate p) =
        Some (LeasePq l)"
    by (simp add: m stored_after_save)
qed

theorem extractor_failures_witness:
  "fst (main_with this_extractors example_env file_no_dashboard empty_state) = Raised ValueError \<and>
   ingestion_log (snd (main_with this_extractors example_env file_no_dashboard empty_state)) =
     [\<lparr> g_file_md5 = x_md5 file_no_dashboard, g_as_of_month = ''2025-01'', g_rows_ingested = 0,
              g_started_at = now_iso example_env, g_finished_at = now_iso example_env,
              g_status = ''failed'' \<rparr>] \<and>
   fst (main_with this_extractors example_env file_no_lease empty_state) = Raised ValueError \<and>
   (\<exists>n. ingestion_log (snd (main_with this_extractors example_env file_no_lease empty_state)) =
     [\<lparr> g_file_md5 = x_md5 file_no_lease, g_as_of_month = ''2025-01'', g_rows_ingested = n,
              g_started_at = now_iso example_env, g_finished_at = now_iso example_env,
              g_status = ''failed'' \<rparr>]) \<and>
   fst (main_with failing_expenses example_env file_good empty_state) = Completed 4 \<and>
   map g_status (ingestion_log (snd (main_with this_extractors example_env file_no_dashboard
     empty_state))) = [''failed''] \<and>
   map g_status (ingestion_log (snd (main_with this_extractors example_env file_no_lease
     empty_state))) = [''failed''] \<and>
   map g_status (ingestion_log (snd (main_with failing_expenses example_env file_good
     empty_state))) = [''success'']"
proof -
  have c: "\<not> check_already_ingested m ''2025-01'' (bronze empty_state Dashboard)" for m
    by (simp add: check_already_ingested_def empty_state_def)
  have e: "ingestion_log empty_state = []" by (simp add: empty_state_def)
  have d1: "detect_as_of_month example_env file_no_dashboard
      (pick_sheet (sheetnames (x_book file_no_dashboard)) DASHBOARD_SHEET_PATTERNS) = Inr ''2025-01''"
    by code_simp
  have x1: "ex_dashboard this_extractors example_env file_no_dashboard ''2025-01''
      (x_md5 file_no_dashboard) = Inl ValueError"
    by code_simp
  have d2: "detect_as_of_month example_env file_no_lease
      (pick_sheet (sheetnames (x_book file_no_lease)) DASHBOARD_SHEET_PATTERNS) = Inr ''2025-01''"
    by code_simp
  have "case ex_dashboard this_extractors example_env file_no_lease ''2025-01'' (x_md5 file_no_lease)
        of Inr d \<Rightarrow> True | Inl e \<Rightarrow> False"
    by code_simp
  then obtain d where x2: "ex_dashboard this_extractors example_env file_no_lease ''2025-01''
      (x_md5 file_no_lease) = Inr d"
    by (auto split: sum.splits)
  have y2: "ex_lease this_extractors example_env file_no_lease ''2025-01'' (x_md5 file_no_lease)
      = Inl ValueError"
    by code_simp
  have d3: "detect_as_of_month example_env file_good
      (pick_sheet (sheetnames (x_book file_good)) DASHBOARD_SHEET_PATTERNS) = Inr ''2025-01''"
    by code_simp
  have "case ex_dashboard failing_expenses example_env file_good ''2025-01'' (x_md5 file_good)
        of Inr d \<Rightarrow> length d = 2 | Inl e \<Rightarrow> False"
    by code_simp
  then obtain d' where x3: "ex_dashboard failing_expenses example_env file_good ''2025-01''
      (x_md5 file_good) = Inr d'" "length d' = 2"
    by (auto split: sum.splits)
  have "case ex_lease failing_expenses example_env file_good ''2025-01'' (x_md5 file_good)
        of Inr l \<Rightarrow> length l = 2 | Inl e \<Rightarrow> False"
    by code_simp
  then obtain l' where y3: "ex_lease failing_expenses example_env file_good ''2025-01''
      (x_md5 file_good) = Inr l'" "length l' = 2"
    by (auto split: sum.splits)
  have z3: "ex_expenses failing_expenses example_env file_good ''2025-01'' (x_md5 file_good)
      = Inl KeyError"
    by (simp add: failing_expenses_def)
  from extractor_failures[OF d1 c, of this_extractors] x1 e
  have r1: "fst (main_with this_extractors example_env file_no_dashboard empty_state) = Raised ValueError"
    "ingestion_log (snd (main_with this_extractors example_env file_no_dashboard empty_state)) =
     [\<lparr> g_file_md5 = x_md5 file_no_dashboard, g_as_of_month = ''2025-01'', g_rows_ingested = 0,
              g_started_at = now_iso example_env, g_finished_at = now_iso example_env,
              g_status = ''failed'' \<rparr>]"
    by simp_all
  from extractor_failures[OF d2 c, of this_extractors] x2 y2 e
  have r2: "fst (main_with this_extractors example_env file_no_lease empty_state) = Raised ValueError"
    "\<exists>n. ingestion_log (snd (main_with this_extractors example_env file_no_lease empty_state)) =
     [\<lparr> g_file_md5 = x_md5 file_no_lease, g_as_of_month = ''2025-01'', g_rows_ingested = n,
              g_started_at = now_iso example_env, g_finished_at = now_iso example_env,
              g_status = ''failed'' \<rparr>]"
    by simp_all
  from extractor_failures[OF d3 c, of failing_expenses] x3 y3 z3 e
  have r3: "fst (main_with failing_expenses example_env file_good empty_state) = Completed 4"
    "map g_status (ingestion_log (snd (main_with failing_expenses example_env file_good
       empty_state))) = [''success'']"
    by auto
  from r2(2) have r4: "map g_status (ingestion_log (snd (main_with this_extractors example_env
      file_no_lease empty_state))) = [''failed'']"
    by auto
  from r1(2) have r5: "map g_status (ingestion_log (snd (main_with this_extractors example_env
      file_no_dashboard empty_state))) = [''failed'']"
    by simp
  from r1 r2 r3 r4 r5 show ?thesis by blast
qed

section \<open>Claims about the period detector\<close>

lemma first_period_simps [simp]:
  "first_period [] = None" "first_period (t # ts) = Some (strftime_Ym t)"
  by (simp_all add: first_period_def)

lemma first_period_append:
  "first_period (xs @ ys) = (case first_period xs of Some p \<Rightarrow> Some p | None \<Rightarrow> first_period ys)"
  by (cases xs) simp_all

lemma try_offsets_eq:
  "try_offsets E ws r c offs =
     first_period (concat (map (\<lambda>offset. if truthy (cell_value ws r (c + offset))
                            then (case to_datetime E (cell_value ws r (c + offset)) of
                                    Some ts \<Rightarrow> [ts]
                                  | None \<Rightarrow> [])
                            else []) offs))"
  by (induction offs) (auto simp: Let_def split: option.splits)

lemma try_offsets_adjacent: "try_offsets E ws r c [1, 2] = first_period (adjacent_dates E ws r c)"
  unfolding adjacent_dates_def by (rule try_offsets_eq)

lemma try_offsets_adjacent': "try_offsets E ws r c [Suc 0, 2] = first_period (adjacent_dates E ws r c)"
  using try_offsets_adjacent[of E ws r c] by (simp del: try_offsets.simps)

lemma scan_cells_eq:
  "scan_cells E ws r cells =
     first_period (concat (map (\<lambda>cv. if is_period_cell (snd cv) then adjacent_dates E ws r (fst cv)
                                       else []) cells))"
  by (induction cells)
     (auto simp: try_offsets_adjacent' first_period_append simp del: try_offsets.simps
           split: option.splits)

lemma scan_rows_eq: "scan_rows E ws rows = first_period (concat (map (row_hits E ws) rows))"
  by (induction rows) (auto simp: scan_cells_eq row_hits_def first_period_append split: option.splits)

lemma get_sheet_known:
  assumes "all_worksheets wb" "name \<in> set (sheetnames wb)"
  shows "get_sheet wb name = Inr (Worksheet (sheet_named wb name))"
proof -
  from assms(2) obtain s where s: "map_of wb name = Some s"
    by (cases "map_of wb name") (auto simp: sheetnames_def map_of_eq_None_iff)
  then have "(name, s) \<in> set wb" by (rule map_of_SomeD)
  with assms(1) have "s \<noteq> Chartsheet"
    by (auto simp: all_worksheets_def list_all_iff)
  then obtain ws where "s = Worksheet ws" by (cases s) simp_all
  with s show ?thesis by (simp add: get_sheet_def sheet_named_def)
qed

lemma scan_sheets_eq:
  "all_worksheets wb \<Longrightarrow> set names \<subseteq> set (sheetnames wb) \<Longrightarrow>
     scan_sheets E wb names =
       Inr (first_period (concat (map (\<lambda>name. sheet_hits E (sheet_named wb name)) names)))"
  by (induction names)
     (auto simp: get_sheet_known scan_rows_eq sheet_hits_def first_period_append split: option.splits)

lemma scan_sheets_hits:
  "all_worksheets wb \<Longrightarrow>
     scan_sheets E wb (sheetnames wb) = Inr (first_period (period_hits E wb))"
  by (simp add: scan_sheets_eq period_hits_def)

lemma scan_sheets_chartsheet:
  "scan_sheets E ((name, Chartsheet) # wb) (sheetnames ((name, Chartsheet) # wb)) =
     Inl AttributeError"
  by (simp add: sheetnames_def get_sheet_def)

lemma filename_matches_Cons:
  "filename_matches (c # cs) =
     (case match_ym (c # cs) of Some g \<Rightarrow> [g] | None \<Rightarrow> []) @ filename_matches cs"
proof -
  have "[0..<Suc (length cs)] = 0 # map Suc [0..<length cs]"
    by (simp only: map_Suc_upt upt_conv_Cons[OF zero_less_Suc])
  then show ?thesis
    by (simp add: filename_matches_def comp_def del: upt_Suc)
qed

lemma re_search_ym_eq:
  "re_search_ym s = (case filename_matches s of [] \<Rightarrow> None | g # rest \<Rightarrow> Some g)"
proof (induction s)
  case Nil
  then show ?case by (simp add: filename_matches_def)
next
  case (Cons c cs)
  then show ?case
    unfolding filename_matches_Cons by (cases "match_ym (c # cs)") simp_all
qed

lemma digit_char_digit: "is_digit (digit_char n)"
proof -
  have "\<forall>k<10. is_digit (''0123456789'' ! k)"
    by (simp add: is_digit_def All_less_Suc numeral_eq_Suc del: One_nat_def)
  then show ?thesis by (simp add: digit_char_def)
qed

lemma show_nat_small: "n < 10 \<Longrightarrow> show_nat n = [digit_char n]"
  by (simp add: show_nat.simps)

lemma show_nat_big: "10 \<le> n \<Longrightarrow> show_nat n = show_nat (n div 10) @ [digit_char (n mod 10)]"
  by (subst show_nat.simps) simp

lemma show_nat_year:
  assumes "1000 \<le> y" "y \<le> 9999"
  shows "\<exists>a b c d. show_nat y = [a, b, c, d] \<and> is_digit a \<and> is_digit b \<and> is_digit c \<and> is_digit d"
proof -
  have 1: "show_nat y = show_nat (y div 10) @ [digit_char (y mod 10)]"
    using assms by (intro show_nat_big) simp
  have 2: "show_nat (y div 10) = show_nat (y div 10 div 10) @ [digit_char (y div 10 mod 10)]"
    using assms by (intro show_nat_big) simp
  have 3: "show_nat (y div 10 div 10) =
             show_nat (y div 10 div 10 div 10) @ [digit_char (y div 10 div 10 mod 10)]"
    using assms by (intro show_nat_big) simp
  have 4: "show_nat (y div 10 div 10 div 10) = [digit_char (y div 10 div 10 div 10)]"
    using assms by (intro show_nat_small) simp
  show ?thesis unfolding 1 2 3 4 by (simp add: digit_char_digit)
qed

lemma zero_digit: "is_digit (CHR ''0'')"
  by (simp add: is_digit_def)

lemma pad2_month:
  assumes "1 \<le> m" "m \<le> 12"
  shows "\<exists>a b. pad2 m = [a, b] \<and> is_digit a \<and> is_digit b"
proof (cases "m < 10")
  case True
  then have "pad2 m = [CHR ''0'', digit_char m]"
    by (simp add: pad2_def show_nat_small)
  then show ?thesis using zero_digit digit_char_digit by blast
next
  case False
  with assms have "show_nat m = show_nat (m div 10) @ [digit_char (m mod 10)]"
    "show_nat (m div 10) = [digit_char (m div 10)]"
    by (simp_all add: show_nat_big show_nat_small)
  with False have "pad2 m = [digit_char (m div 10), digit_char (m mod 10)]"
    by (simp add: pad2_def)
  then show ?thesis using digit_char_digit by blast
qed

lemma strftime_shape: "valid_ts ts \<Longrightarrow> is_yyyy_mm (strftime_Ym ts)"
proof -
  assume "valid_ts ts"
  then have y: "1000 \<le> ts_year ts" "ts_year ts \<le> 9999" and m: "1 \<le> ts_month ts" "ts_month ts \<le> 12"
    by (simp_all add: valid_ts_def)
  from show_nat_year[OF y] obtain a b c d where
    yy: "show_nat (ts_year ts) = [a, b, c, d]" "is_digit a" "is_digit b" "is_digit c" "is_digit d"
    by blast
  from pad2_month[OF m] obtain e f where mm: "pad2 (ts_month ts) = [e, f]" "is_digit e" "is_digit f"
    by blast
  show ?thesis unfolding strftime_Ym_def yy(1) mm(1) using yy(2-) mm(2-) by simp
qed

lemma match_ym_shape: "match_ym s = Some g \<Longrightarrow> is_yyyy_mm (fst g @ ''-'' @ snd g)"
proof (induction s rule: match_ym.induct)
  case (1 c1 c2 c3 c4 c5 c6 c7 rest)
  then have c: "c1 = CHR ''2''" "c2 = CHR ''0''" "is_digit c3" "is_digit c4" "is_digit c6" "is_digit c7"
    and g: "g = ([c1, c2, c3, c4], [c6, c7])"
    by (auto split: if_splits)
  have "is_digit (CHR ''2'')" by (simp add: is_digit_def)
  with c zero_digit show ?case unfolding g by simp
qed simp_all

lemma filename_matches_shape:
  assumes "g \<in> set (filename_matches s)"
  shows "is_yyyy_mm (fst g @ ''-'' @ snd g)"
proof -
  from assms obtain k where "match_ym (drop k s) = Some g"
    by (auto simp: filename_matches_def split: option.splits)
  then show ?thesis by (rule match_ym_shape)
qed

lemma valid_envD: "valid_env E \<Longrightarrow> to_datetime E v = Some stamp \<Longrightarrow> valid_ts stamp"
  unfolding valid_env_def by blast

lemma valid_env_now: "valid_env E \<Longrightarrow> valid_ts (now_month E)"
  unfolding valid_env_def by blast

lemma cell_date:
  "stamp \<in> set (if truthy a then (case to_datetime E a of Some t \<Rightarrow> [t] | None \<Rightarrow> []) else [])
     \<Longrightarrow> to_datetime E a = Some stamp"
  by (cases "truthy a"; cases "to_datetime E a") simp_all

lemma adjacent_dates_valid:
  assumes "valid_env E" "stamp \<in> set (adjacent_dates E ws r c)"
  shows "valid_ts stamp"
proof -
  from assms(2) have "to_datetime E (cell_value ws r (c + 1)) = Some stamp \<or>
      to_datetime E (cell_value ws r (c + 2)) = Some stamp"
    unfolding adjacent_dates_def list.map concat.simps set_append Un_iff
    by (metis cell_date empty_iff empty_set)
  with valid_envD[OF assms(1)] show ?thesis by blast
qed

lemma period_hits_valid:
  assumes "valid_env E" "stamp \<in> set (period_hits E wb)"
  shows "valid_ts stamp"
  using assms(2) adjacent_dates_valid[OF assms(1)]
  unfolding period_hits_def sheet_hits_def row_hits_def
  by (auto split: if_split_asm)

lemma month_column_period_shape:
  assumes "valid_env E" "month_column_period E x ds = Some p"
  shows "is_yyyy_mm p"
  using assms(2) valid_envD[OF assms(1)] unfolding month_column_period_def
  by (auto simp: strftime_shape
           split: option.split_asm if_split_asm sum.split_asm list.split_asm)

lemma parse_iso_date_valid: "parse_iso_date s = Some stamp \<Longrightarrow> valid_ts stamp"
  unfolding parse_iso_date_def
  by (cases "py_int (take 4 s)"; cases "py_int (take 2 (drop 5 s))"; cases "py_int (drop 8 s)")
     (auto split: if_split_asm)

lemma valid_example_env: "valid_env example_env"
proof -
  have "valid_ts stamp" if "to_datetime example_env v = Some stamp" for v stamp
    using that by (cases v) (auto simp: example_env_def parse_iso_date_valid split: if_split_asm)
  moreover have "valid_ts (now_month example_env)"
    by (simp add: example_env_def valid_ts_def)
  ultimately show ?thesis unfolding valid_env_def by blast
qed

text \<open>
  On a workbook whose sheets are all worksheets the period detector returns a value and
  raises nothing, and the value is the result of the first strategy that succeeds, in this
  order: the first non-null value of the dashboard sheet's month column parsed as a date;
  the first date found by scanning the first 50 rows of every sheet for a text cell
  containing "period" (in any case) and parsing the first, then the second cell to its
  right (a cell that is empty, zero or the empty text is passed over); the leftmost match
  of \<^verbatim>\<open>20\d\d[-_]\d\d\<close> in the file name, joined with a hyphen; and otherwise the
  current month. When pandas and the clock deliver well-formed timestamps the value has
  the shape \<^verbatim>\<open>YYYY-MM\<close>.
\<close>

lemma detect_as_of_month_worksheets:
  assumes w: "all_worksheets (x_book x)"
  shows
  "\<exists>p. detect_as_of_month E x dashboard_sheet_name = Inr p \<and>
        p = (case month_column_period E x dashboard_sheet_name of
               Some as_of \<Rightarrow> as_of
             | None \<Rightarrow>
                 (case period_hits E (x_book x) of
                    ts # others \<Rightarrow> strftime_Ym ts
                  | [] \<Rightarrow>
                      (case filename_matches (x_stem x) of
                         g # others \<Rightarrow> fst g @ ''-'' @ snd g
                       | [] \<Rightarrow> strftime_Ym (now_month E)))) \<and>
        (valid_env E \<longrightarrow> is_yyyy_mm p)"
proof -
  let ?p = "case month_column_period E x dashboard_sheet_name of
               Some as_of \<Rightarrow> as_of
             | None \<Rightarrow>
                 (case period_hits E (x_book x) of
                    ts # others \<Rightarrow> strftime_Ym ts
                  | [] \<Rightarrow>
                      (case filename_matches (x_stem x) of
                         g # others \<Rightarrow> fst g @ ''-'' @ snd g
                       | [] \<Rightarrow> strftime_Ym (now_month E)))"
  have a: "detect_as_of_month E x dashboard_sheet_name = Inr ?p"
    by (simp add: detect_as_of_month_def scan_sheets_hits[OF w] re_search_ym_eq first_period_def
             split: option.splits list.splits)
  have b: "is_yyyy_mm ?p" if v: "valid_env E"
  proof (cases "month_column_period E x dashboard_sheet_name")
    case (Some as_of)
    with month_column_period_shape[OF v] show ?thesis by simp
  next
    case None
    show ?thesis
    proof (cases "period_hits E (x_book x)")
      case (Cons ts others)
      then have "valid_ts ts" using period_hits_valid[OF v, of ts "x_book x"] by simp
      with None Cons show ?thesis by (simp add: strftime_shape)
    next
      case Nil
      show ?thesis
      proof (cases "filename_matches (x_stem x)")
        case (Cons g others)
        then have "is_yyyy_mm (fst g @ ''-'' @ snd g)"
          using filename_matches_shape[of g "x_stem x"] by simp
        with None Nil Cons show ?thesis by simp
      next
        case Nil': Nil
        from v have "valid_ts (now_month E)" by (rule valid_env_now)
        with None Nil Nil' show ?thesis by (simp add: strftime_shape)
      qed
    qed
  qed
  from a b show ?thesis by blast
qed

lemma all_worksheets_plain: "all_worksheets (x_book (plain_xlsx stem md5 wb))"
  by (simp add: plain_xlsx_def all_worksheets_def list_all_iff)

lemma detect_file_period:
  "detect_as_of_month example_env file_period None = Inr ''2025-03''"
  by code_simp

text \<open>
  A chart sheet has no rows to scan. When strategy 1 has found nothing, the scan of
  strategy 2 reaches the sheets in workbook order, and \<^verbatim>\<open>ws.iter_rows\<close> on a chart
  sheet raises \<^verbatim>\<open>AttributeError\<close> outside every handler of the function: the strategies
  after it, and the sheets after it, are never tried.
\<close>

lemma detect_chartsheet_first:
  assumes "month_column_period E x dashboard_sheet_name = None"
    and "x_book x = (name, Chartsheet) # wb"
  shows "detect_as_of_month E x dashboard_sheet_name = Inl AttributeError"
  using assms(1) scan_sheets_chartsheet[of E name wb]
  by (simp add: detect_as_of_month_def assms(2))

text \<open>
  C5. "For every workbook the period detector returns a period, trying the month column,
  the period cells, the file name and the current month in order, and never raises" does
  not hold of the code. The workbook \<open>file_chartsheet\<close> has a chart sheet in front of a
  dashboard and a lease worksheet, and its dashboard has no month column at header row 29.
  The detector raises \<^verbatim>\<open>AttributeError\<close> on it although the file name and the clock
  would both give a period, and the run that calls it ends with that exception before
  anything is stored or logged. The same workbook without the chart sheet gets the
  period of its file name, and a workbook with the chart sheet and a month column gets
  the period of the month column, since strategy 1 returns before the sheets are scanned.
\<close>

theorem chartsheet_detection_raises:
  "detect_as_of_month example_env file_chartsheet
     (pick_sheet (sheetnames (x_book file_chartsheet)) DASHBOARD_SHEET_PATTERNS) =
     Inl AttributeError \<and>
   main example_env file_chartsheet empty_state = (Raised AttributeError, empty_state) \<and>
   x_stem file_chartsheet = x_stem file_good \<and>
   detect_as_of_month example_env file_good
     (pick_sheet (sheetnames (x_book file_good)) DASHBOARD_SHEET_PATTERNS) =
     Inr ''2025-01'' \<and>
   detect_as_of_month example_env file_month_column
     (pick_sheet (sheetnames (x_book file_month_column)) DASHBOARD_SHEET_PATTERNS) =
     Inr ''2025-03''"
proof -
  have 1: "detect_as_of_month example_env file_chartsheet
     (pick_sheet (sheetnames (x_book file_chartsheet)) DASHBOARD_SHEET_PATTERNS) =
     Inl AttributeError"
    by code_simp
  then have 2: "main example_env file_chartsheet empty_state = (Raised AttributeError, empty_state)"
    by (simp add: main_def main_with_def)
  have 3: "x_stem file_chartsheet = x_stem file_good"
    by (simp add: file_chartsheet_def)
  have 4: "detect_as_of_month example_env file_good
     (pick_sheet (sheetnames (x_book file_good)) DASHBOARD_SHEET_PATTERNS) =
     Inr ''2025-01''"
    by code_simp
  have 5: "detect_as_of_month example_env file_month_column
     (pick_sheet (sheetnames (x_book file_month_column)) DASHBOARD_SHEET_PATTERNS) =
     Inr ''2025-03''"
    by code_simp
  from 1 2 3 4 5 show ?thesis by blast
qed

section \<open>Claims about repeated ingestion\<close>

lemma ingest_dashboard_md5:
  "ingest_dashboard_monthly E x p m = Inr d \<Longrightarrow> r \<in> set d \<Longrightarrow> d_file_md5 r = m"
  by (auto simp: ingest_dashboard_monthly_def split: option.splits if_splits sum.splits)

lemma update_only_file:
  assumes "\<forall>nf\<in>set files. fst nf = name"
  shows "\<exists>rest. AList.update name v files = (name, v) # rest"
  using assms by (cases files) auto

lemma main_skipped:
  "detect_as_of_month E x (pick_sheet (sheetnames (x_book x)) DASHBOARD_SHEET_PATTERNS) = Inr p \<Longrightarrow>
   check_already_ingested (x_md5 x) p (bronze s Dashboard) \<Longrightarrow>
   main E x s = (Skipped, log_ingestion E (x_md5 x) p 0 ''skipped'' s)"
  by (simp add: main_def main_with_def)

lemma second_run_skipped:
  assumes p: "detect_as_of_month E x (pick_sheet (sheetnames (x_book x)) DASHBOARD_SHEET_PATTERNS) = Inr p"
    and same: "detect_as_of_month E' x (pick_sheet (sheetnames (x_book x)) DASHBOARD_SHEET_PATTERNS) = Inr p"
    and first: "fst (main E x st) = Completed n"
    and only: "\<forall>nf\<in>set (bronze st Dashboard p). fst nf = output_file Dashboard p"
    and some: "ingest_dashboard_monthly E x p (x_md5 x) \<noteq> Inr []"
  shows "main E' x (snd (main E x st)) =
           (Skipped, log_ingestion E' (x_md5 x) p 0 ''skipped'' (snd (main E x st)))"
proof -
  let ?m = "x_md5 x"
  from first p have nc: "\<not> check_already_ingested ?m p (bronze st Dashboard)"
    by (auto simp: main_def main_with_def split: if_splits)
  from first p nc obtain d where d: "ingest_dashboard_monthly E x p ?m = Inr d"
    by (cases "ingest_dashboard_monthly E x p ?m")
       (auto simp: main_def main_with_def this_extractors_def)
  from first p nc d obtain l where l: "ingest_lease_rate_snapshot E x p ?m = Inr l"
    by (cases "ingest_lease_rate_snapshot E x p ?m")
       (auto simp: main_def main_with_def this_extractors_def Let_def)
  let ?ts = "expenses_step this_extractors E x p ?m
               (length d, save_bronze_partition (DashboardPq d) Dashboard p st)"
  from p nc d l have m: "snd (main E x st) =
      log_ingestion E ?m p (fst ?ts + length l) ''success''
        (save_bronze_partition (LeasePq l) LeaseRate p (snd ?ts))"
    by (simp add: main_def main_with_def this_extractors_def Let_def)
  have "bronze (snd (main E x st)) Dashboard p =
          AList.update (output_file Dashboard p) (DashboardPq d) (bronze st Dashboard p)"
    by (simp add: m bronze_save expenses_step_other)
  with update_only_file[OF only] obtain rest where
    b: "bronze (snd (main E x st)) Dashboard p = (output_file Dashboard p, DashboardPq d) # rest"
    by metis
  from some d obtain r where "r \<in> set d" by (cases d) auto
  with ingest_dashboard_md5[OF d] have "?m \<in> set (map d_file_md5 d)" by force
  with b have "check_already_ingested ?m p (bronze (snd (main E x st)) Dashboard)"
    by (simp add: check_already_ingested_def)
  with same show ?thesis by (rule main_skipped)
qed

text \<open>
  C1. Ingesting the same file twice is meant to end the second run as a duplicate, and
  \<open>second_run_skipped\<close> shows it does when the first run stored at least one dashboard
  row. The digest is read back from the rows of the stored dashboard file, however, so a
  first run that stores a dashboard frame without rows leaves nothing to recognise: the
  file whose month labels are Spanish is ingested with success (no dashboard row, one
  lease row), and ingesting it again extracts and writes again and logs a second
  "success" instead of "skipped".
\<close>

theorem empty_dashboard_reingested:
  "case main example_env file_spanish empty_state of
     (out1, st1) \<Rightarrow>
       (case main example_env file_spanish st1 of
          (out2, st2) \<Rightarrow>
            out1 = Completed 1 \<and> stored_dashboard_rows st1 ''2025-01'' = [] \<and>
            out2 = Completed 1 \<and>
            map g_status (ingestion_log st2) = [''success'', ''success''])"
  by code_simp

end
